theory Spec2Isabelle
  imports Complex_Main "HOL-Library.Word"
begin

unbundle bit_operations_syntax

section \<open>Protected QR service: token protocol and orchestration\<close>

text \<open>
  A shallow embedding of the Node.js service: \<^verbatim>\<open>utils/hex.ts\<close>
  (\<open>assertHexLength\<close>, \<open>hexToBuffer\<close>), the configuration module (\<open>required\<close>,
  \<open>config\<close>) and the service class \<open>QrService\<close> (\<open>generate\<close>, \<open>verify\<close>,
  \<open>decodeToken\<close>).

  \<^item> A JavaScript string is a \<open>string\<close> (8-bit characters), a \<open>Buffer\<close> a list of
    bytes, a thrown exception or a rejected promise \<open>Inl\<close> of an \<open>error\<close>.
  \<^item> The runtime functions the service calls (\<open>Buffer.from\<close>, \<open>toString\<close>,
    \<open>writeUIntBE\<close>, \<open>subarray\<close>, \<open>String.split\<close>, \<open>replace\<close>, \<open>repeat\<close>,
    \<open>crypto.createHmac\<close>) are modelled after the Node.js runtime and the standards
    it implements (RFC 4648, FIPS 180-4, RFC 2104).
  \<^item> The two collections of the database are lists that \<open>insertOne\<close> appends to;
    the clock, the pattern service behind \<open>axios.post\<close> and the database's
    readiness to accept an insert are inputs of a call (\<open>env\<close>). The service functions
    take the store and return it with their result.
  \<^item> The token, score and flag that the pattern service reports are typed as its
    contract types them (a string, a number, a boolean), each possibly absent.
  \<^item> \<open>generate\<close> and \<open>decodeToken\<close> are long method bodies; their stages are named
    (\<open>validateInput\<close>, \<open>packPayload\<close>, \<open>signPayload\<close>, \<open>encodePayload\<close>,
    \<open>makeToken\<close>, \<open>tokenPayload\<close>) and composed as the source composes them.
\<close>

subsection \<open>Errors\<close>

datatype error =
    HttpException nat string  \<comment> \<open>\<open>new HttpException(status, message)\<close>\<close>
  | StartupError string       \<comment> \<open>\<open>new Error(message)\<close> thrown while the configuration loads\<close>
  | RangeError                \<comment> \<open>\<open>ERR_OUT_OF_RANGE\<close> of \<open>writeUIntBE\<close>, \<open>RangeError\<close> of \<open>repeat\<close>\<close>
  | TypeError                 \<comment> \<open>a method called on \<open>undefined\<close>\<close>
  | UpstreamError string      \<comment> \<open>\<open>axios.post\<close> rejected: network failure, timeout, non-2xx status\<close>
  | StoreError string         \<comment> \<open>\<open>insertOne\<close> rejected\<close>

subsection \<open>Buffers, hexadecimal text\<close>

type_synonym byte = "8 word"
type_synonym buffer = "byte list"

definition bytes_of :: "string \<Rightarrow> buffer" where
  \<comment> \<open>the bytes of a string (a string key given to \<open>createHmac\<close>)\<close>
  "bytes_of s = map (\<lambda>c. of_nat (of_char c)) s"

fun index_of :: "'a \<Rightarrow> 'a list \<Rightarrow> nat option" where
  "index_of x [] = None"
| "index_of x (y # ys) =
     (if x = y then Some 0 else (case index_of x ys of None \<Rightarrow> None | Some i \<Rightarrow> Some (Suc i)))"

definition hexdigit :: "nat \<Rightarrow> char" where
  "hexdigit n = ''0123456789abcdef'' ! n"

definition to_hex :: "buffer \<Rightarrow> string" where
  \<comment> \<open>\<open>buf.toString("hex")\<close>: two lowercase digits per byte\<close>
  "to_hex bs = concat (map (\<lambda>b. [hexdigit (unat b div 16), hexdigit (unat b mod 16)]) bs)"

definition unhex :: "char \<Rightarrow> nat option" where
  \<comment> \<open>the value of a hexadecimal digit of either case\<close>
  "unhex c =
     (case index_of c ''0123456789abcdef'' of
        Some n \<Rightarrow> Some n
      | None \<Rightarrow> (case index_of c ''ABCDEF'' of Some n \<Rightarrow> Some (10 + n) | None \<Rightarrow> None))"

fun hex_decode :: "string \<Rightarrow> buffer" where
  \<comment> \<open>\<open>Buffer.from(s, "hex")\<close>: one byte per pair of digits, stopping at the first
      pair that is not hexadecimal; a last single character is dropped\<close>
  "hex_decode (a # b # rest) =
     (case unhex a of
        None \<Rightarrow> []
      | Some h \<Rightarrow> (case unhex b of None \<Rightarrow> [] | Some l \<Rightarrow> of_nat (16 * h + l) # hex_decode rest))"
| "hex_decode _ = []"

definition subarray :: "buffer \<Rightarrow> nat \<Rightarrow> nat \<Rightarrow> buffer" where
  \<comment> \<open>\<open>buf.subarray(start, end)\<close> for non-negative indices\<close>
  "subarray buf start end = drop start (take end buf)"

definition writeUIntBE :: "int \<Rightarrow> nat \<Rightarrow> error + buffer" where
  \<comment> \<open>\<open>Buffer.alloc(n).writeUIntBE(value, 0, n)\<close>: the runtime checks
      \<open>0 \<le> value \<le> 2^(8n) - 1\<close> and throws \<open>ERR_OUT_OF_RANGE\<close> otherwise\<close>
  "writeUIntBE v byteLength =
     (if v < 0 \<or> 2 ^ (8 * byteLength) - 1 < v then Inl RangeError
      else Inr (map (\<lambda>i. of_int (v div 256 ^ (byteLength - 1 - i))) [0..<byteLength]))"

definition readUIntBE :: "buffer \<Rightarrow> int" where
  \<comment> \<open>the unsigned big-endian value of a buffer\<close>
  "readUIntBE bs = foldl (\<lambda>acc b. acc * 256 + uint b) 0 bs"

subsection \<open>Base64\<close>

definition b64_alphabet :: string where
  "b64_alphabet = ''ABCDEFGHIJKLMNOPQRSTUVWXYZabcdefghijklmnopqrstuvwxyz0123456789+/''"

definition b64_char :: "nat \<Rightarrow> char" where
  "b64_char n = b64_alphabet ! n"

fun enc_sextets :: "buffer \<Rightarrow> nat list" where
  \<comment> \<open>the 6-bit groups of a buffer, the last group filled with zero bits\<close>
  "enc_sextets (a # b # c # rest) =
     [unat a div 4, unat a mod 4 * 16 + unat b div 16,
      unat b mod 16 * 4 + unat c div 64, unat c mod 64] @ enc_sextets rest"
| "enc_sextets [a, b] =
     [unat a div 4, unat a mod 4 * 16 + unat b div 16, unat b mod 16 * 4]"
| "enc_sextets [a] = [unat a div 4, unat a mod 4 * 16]"
| "enc_sextets [] = []"

definition base64_encode :: "buffer \<Rightarrow> string" where
  \<comment> \<open>\<open>buf.toString("base64")\<close>: the standard alphabet, padded with \<open>=\<close>\<close>
  "base64_encode bs =
     map b64_char (enc_sextets bs) @ replicate ((3 - length bs mod 3) mod 3) CHR ''=''"

definition unbase64 :: "char \<Rightarrow> nat option" where
  \<comment> \<open>the runtime's decoding table: both the standard and the URL-safe alphabet\<close>
  "unbase64 c =
     (if c = CHR ''-'' then Some 62 else if c = CHR ''_'' then Some 63
      else index_of c b64_alphabet)"

definition sextets :: "string \<Rightarrow> nat list" where
  \<comment> \<open>the decoder reads up to the first \<open>=\<close> and skips every character outside
      the table\<close>
  "sextets s = List.map_filter unbase64 (takeWhile (\<lambda>c. c \<noteq> CHR ''='') s)"

fun sextet_bytes :: "nat list \<Rightarrow> buffer" where
  "sextet_bytes (a # b # c # d # rest) =
     [of_nat (a * 4 + b div 16), of_nat (b mod 16 * 16 + c div 4), of_nat (c mod 4 * 64 + d)]
       @ sextet_bytes rest"
| "sextet_bytes [a, b, c] = [of_nat (a * 4 + b div 16), of_nat (b mod 16 * 16 + c div 4)]"
| "sextet_bytes [a, b] = [of_nat (a * 4 + b div 16)]"
| "sextet_bytes _ = []"

definition base64_decode :: "string \<Rightarrow> buffer" where
  \<comment> \<open>\<open>Buffer.from(s, "base64")\<close>: never throws; incomplete trailing bits are dropped\<close>
  "base64_decode s = sextet_bytes (sextets s)"

subsection \<open>String helpers\<close>

definition replace_all :: "char \<Rightarrow> char \<Rightarrow> string \<Rightarrow> string" where
  \<comment> \<open>\<open>s.replace(/c/g, "d")\<close> for a single character \<open>c\<close>\<close>
  "replace_all c d s = map (\<lambda>x. if x = c then d else x) s"

definition remove_all :: "char \<Rightarrow> string \<Rightarrow> string" where
  \<comment> \<open>\<open>s.replace(/c/g, "")\<close>\<close>
  "remove_all c s = filter (\<lambda>x. x \<noteq> c) s"

fun js_split :: "char \<Rightarrow> string \<Rightarrow> string list" where
  \<comment> \<open>\<open>s.split(sep)\<close> for a one-character separator\<close>
  "js_split sep [] = [[]]"
| "js_split sep (c # cs) =
     (if c = sep then [] # js_split sep cs
      else (case js_split sep cs of [] \<Rightarrow> [[c]] | w # ws \<Rightarrow> (c # w) # ws))"

definition js_repeat :: "string \<Rightarrow> int \<Rightarrow> error + string" where
  \<comment> \<open>\<open>s.repeat(count)\<close> throws a \<open>RangeError\<close> on a negative count\<close>
  "js_repeat s n = (if n < 0 then Inl RangeError else Inr (concat (replicate (nat n) s)))"

function show_nat :: "nat \<Rightarrow> string" where
  \<comment> \<open>a number inside a template literal: its decimal digits\<close>
  "show_nat n =
     (if n < 10 then [''0123456789'' ! n] else show_nat (n div 10) @ [''0123456789'' ! (n mod 10)])"
  by pat_completeness auto
termination
  by (relation "measure id") auto

declare show_nat.simps [simp del]

subsection \<open>SHA-256 and HMAC\<close>

type_synonym u32 = "32 word"

definition rotr :: "nat \<Rightarrow> u32 \<Rightarrow> u32" where
  "rotr n x = drop_bit n x OR push_bit (32 - n) x"

definition ch :: "u32 \<Rightarrow> u32 \<Rightarrow> u32 \<Rightarrow> u32" where
  "ch x y z = (x AND y) XOR (NOT x AND z)"

definition maj :: "u32 \<Rightarrow> u32 \<Rightarrow> u32 \<Rightarrow> u32" where
  "maj x y z = (x AND y) XOR (x AND z) XOR (y AND z)"

definition big_sigma0 :: "u32 \<Rightarrow> u32" where
  "big_sigma0 x = rotr 2 x XOR rotr 13 x XOR rotr 22 x"

definition big_sigma1 :: "u32 \<Rightarrow> u32" where
  "big_sigma1 x = rotr 6 x XOR rotr 11 x XOR rotr 25 x"

definition small_sigma0 :: "u32 \<Rightarrow> u32" where
  "small_sigma0 x = rotr 7 x XOR rotr 18 x XOR drop_bit 3 x"

definition small_sigma1 :: "u32 \<Rightarrow> u32" where
  "small_sigma1 x = rotr 17 x XOR rotr 19 x XOR drop_bit 10 x"

definition sha256_k :: "u32 list" where
  "sha256_k =
    [1116352408, 1899447441, 3049323471, 3921009573, 961987163, 1508970993,
     2453635748, 2870763221, 3624381080, 310598401, 607225278, 1426881987,
     1925078388, 2162078206, 2614888103, 3248222580, 3835390401, 4022224774,
     264347078, 604807628, 770255983, 1249150122, 1555081692, 1996064986,
     2554220882, 2821834349, 2952996808, 3210313671, 3336571891, 3584528711,
     113926993, 338241895, 666307205, 773529912, 1294757372, 1396182291,
     1695183700, 1986661051, 2177026350, 2456956037, 2730485921, 2820302411,
     3259730800, 3345764771, 3516065817, 3600352804, 4094571909, 275423344,
     430227734, 506948616, 659060556, 883997877, 958139571, 1322822218,
     1537002063, 1747873779, 1955562222, 2024104815, 2227730452, 2361852424,
     2428436474, 2756734187, 3204031479, 3329325298]"

type_synonym sha_state = "u32 \<times> u32 \<times> u32 \<times> u32 \<times> u32 \<times> u32 \<times> u32 \<times> u32"

definition sha256_init :: sha_state where
  "sha256_init =
    (1779033703, 3144134277, 1013904242, 2773480762,
     1359893119, 2600822924, 528734635, 1541459225)"

definition be32 :: "byte \<Rightarrow> byte \<Rightarrow> byte \<Rightarrow> byte \<Rightarrow> u32" where
  "be32 a b c d =
     push_bit 24 (ucast a) OR push_bit 16 (ucast b) OR push_bit 8 (ucast c) OR ucast d"

fun block_words :: "buffer \<Rightarrow> u32 list" where
  "block_words (a # b # c # d # rest) = be32 a b c d # block_words rest"
| "block_words _ = []"

fun schedule :: "nat \<Rightarrow> u32 list \<Rightarrow> u32 list" where
  "schedule 0 ws = ws"
| "schedule (Suc n) ws =
     (let l = length ws in
      schedule n (ws @ [small_sigma1 (ws ! (l - 2)) + ws ! (l - 7)
                        + small_sigma0 (ws ! (l - 15)) + ws ! (l - 16)]))"

fun sha_round :: "sha_state \<Rightarrow> u32 \<times> u32 \<Rightarrow> sha_state" where
  "sha_round (a, b, c, d, e, f, g, h) (k, w) =
     (let t1 = h + big_sigma1 e + ch e f g + k + w;
          t2 = big_sigma0 a + maj a b c
      in (t1 + t2, a, b, c, d + t1, e, f, g))"

fun add_state :: "sha_state \<Rightarrow> sha_state \<Rightarrow> sha_state" where
  "add_state (a, b, c, d, e, f, g, h) (a', b', c', d', e', f', g', h') =
     (a + a', b + b', c + c', d + d', e + e', f + f', g + g', h + h')"

definition compress :: "sha_state \<Rightarrow> buffer \<Rightarrow> sha_state" where
  "compress st blk =
     add_state st (foldl sha_round st (zip sha256_k (schedule 48 (block_words blk))))"

definition len_bytes :: "64 word \<Rightarrow> buffer" where
  "len_bytes w = map (\<lambda>i. ucast (drop_bit (8 * (7 - i)) w)) [0..<8]"

definition sha_pad :: "buffer \<Rightarrow> buffer" where
  "sha_pad m =
     m @ [128] @ replicate ((119 - length m mod 64) mod 64) 0
       @ len_bytes (of_nat (8 * length m))"

fun sha_blocks :: "nat \<Rightarrow> sha_state \<Rightarrow> buffer \<Rightarrow> sha_state" where
  "sha_blocks 0 st m = st"
| "sha_blocks (Suc n) st m = sha_blocks n (compress st (take 64 m)) (drop 64 m)"

definition word_bytes :: "u32 \<Rightarrow> buffer" where
  "word_bytes w = [ucast (drop_bit 24 w), ucast (drop_bit 16 w), ucast (drop_bit 8 w), ucast w]"

fun state_bytes :: "sha_state \<Rightarrow> buffer" where
  "state_bytes (a, b, c, d, e, f, g, h) =
     word_bytes a @ word_bytes b @ word_bytes c @ word_bytes d @
     word_bytes e @ word_bytes f @ word_bytes g @ word_bytes h"

definition sha256 :: "buffer \<Rightarrow> buffer" where
  "sha256 m = (let p = sha_pad m in state_bytes (sha_blocks (length p div 64) sha256_init p))"

definition hmac_sha256 :: "buffer \<Rightarrow> buffer \<Rightarrow> buffer" where
  \<comment> \<open>\<open>crypto.createHmac("sha256", key).update(msg).digest()\<close>\<close>
  "hmac_sha256 key msg =
     (let k0 = (if length key > 64 then sha256 key else key);
          k = k0 @ replicate (64 - length k0) 0
      in sha256 (map (\<lambda>b. b XOR 92) k @ sha256 (map (\<lambda>b. b XOR 54) k @ msg)))"

subsection \<open>Configuration (\<^verbatim>\<open>config/index.ts\<close>)\<close>

datatype jsnum =
    NumLit nat        \<comment> \<open>a numeric literal of the source\<close>
  | NumberOf string   \<comment> \<open>\<open>Number(s)\<close> of an environment string, kept symbolic\<close>

record config =
  port :: jsnum
  mongoUri :: string
  mongoDb :: string
  pythonServiceUrl :: string
  hmacSecret :: string
  logLevel :: string
  requestTimeoutMs :: jsnum

definition required :: "(string \<rightharpoonup> string) \<Rightarrow> string \<Rightarrow> string option \<Rightarrow> error + string" where
  \<comment> \<open>\<open>const value = process.env[key] ?? fallback; if (!value) throw ...\<close>: an unset
      variable takes the fallback, and an absent or empty value throws\<close>
  "required penv key fallback =
     (let value = (case penv key of Some v \<Rightarrow> Some v | None \<Rightarrow> fallback) in
      case value of
        None \<Rightarrow> Inl (StartupError (''Missing required env: '' @ key))
      | Some v \<Rightarrow> if v = [] then Inl (StartupError (''Missing required env: '' @ key)) else Inr v)"

definition loadConfig :: "(string \<rightharpoonup> string) \<Rightarrow> error + config" where
  \<comment> \<open>the module body: the object literal's properties are evaluated in order, and the
      first \<open>required\<close> that throws aborts the import of the module\<close>
  "loadConfig penv =
     (let port' = (case penv ''PORT'' of None \<Rightarrow> NumLit 8080 | Some s \<Rightarrow> NumberOf s) in
      case required penv ''MONGO_URI'' None of Inl e \<Rightarrow> Inl e | Inr mongoUri' \<Rightarrow>
      case required penv ''MONGO_DB'' (Some ''protected_qr'') of Inl e \<Rightarrow> Inl e | Inr mongoDb' \<Rightarrow>
      case required penv ''PYTHON_SERVICE_URL'' None of Inl e \<Rightarrow> Inl e | Inr pythonServiceUrl' \<Rightarrow>
      case required penv ''HMAC_SECRET'' None of Inl e \<Rightarrow> Inl e | Inr hmacSecret' \<Rightarrow>
      Inr \<lparr> port = port',
            mongoUri = mongoUri',
            mongoDb = mongoDb',
            pythonServiceUrl = pythonServiceUrl',
            hmacSecret = hmacSecret',
            logLevel = (case penv ''LOG_LEVEL'' of None \<Rightarrow> ''info'' | Some l \<Rightarrow> l),
            requestTimeoutMs =
              (case penv ''REQUEST_TIMEOUT_MS'' of None \<Rightarrow> NumLit 10000 | Some s \<Rightarrow> NumberOf s) \<rparr>)"

subsection \<open>Input validation (\<^verbatim>\<open>utils/hex.ts\<close>)\<close>

definition is_hex_char :: "char \<Rightarrow> bool" where
  "is_hex_char c = (c \<in> set ''0123456789abcdefABCDEF'')"

definition test_hex :: "string \<Rightarrow> bool" where
  \<comment> \<open>\<open>/^[0-9a-fA-F]+$/.test(value)\<close>: one or more characters, all hexadecimal\<close>
  "test_hex s = (s \<noteq> [] \<and> list_all is_hex_char s)"

definition assertHexLength :: "string \<Rightarrow> string \<Rightarrow> nat \<Rightarrow> error + unit" where
  "assertHexLength label v expectedLength =
     (if \<not> test_hex v then Inl (HttpException 400 (label @ '' must be hex string''))
      else if length v \<noteq> expectedLength then
        Inl (HttpException 400 (label @ '' must be '' @ show_nat expectedLength @ '' hex chars''))
      else Inr ())"

definition hexToBuffer :: "string \<Rightarrow> buffer" where
  "hexToBuffer v = hex_decode v"

subsection \<open>Service types (\<^verbatim>\<open>services/qr.types.ts\<close>)\<close>

text \<open>
  \<open>GenerateQrInput\<close> and \<open>DecodedMeta\<close> are interfaces of the same shape: four hex
  strings. One record stands for both.
\<close>

record hex_fields =
  data_hash :: string
  metadata_series :: string
  metadata_issued :: string
  metadata_expiry :: string

type_synonym GenerateQrInput = hex_fields
type_synonym DecodedMeta = hex_fields

record GenerateQrOutput =
  token :: string
  qr_image_base64 :: "string option"  \<comment> \<open>\<open>pythonRes.data?.qr_image_base64\<close> may be undefined\<close>

record VerifyQrOutput =
  is_authentic :: bool
  confidence_score :: rat
  decoded_meta :: "DecodedMeta option"

subsection \<open>The pattern service and the store\<close>

datatype request_body =
    GenerateBody string nat nat  \<comment> \<open>\<open>{ token, size, border }\<close>\<close>
  | VerifyBody string            \<comment> \<open>\<open>{ image_base64 }\<close>\<close>

text \<open>
  The body of a response of the pattern service: every property the service reads may
  be absent (or null).
\<close>

record response_data =
  res_qr_image_base64 :: "string option"
  res_token :: "string option"
  res_confidence_score :: "rat option"
  res_is_authentic :: "bool option"

record audit_record =
  audit_token :: string
  audit_data_hash :: string
  audit_metadata_series :: string
  audit_metadata_issued :: string
  audit_metadata_expiry :: string
  audit_created_at :: int

record verify_record =
  log_token :: "string option"
  log_confidence_score :: rat
  log_is_authentic :: bool
  log_created_at :: int

text \<open>The two collections of the database, each an append-only list of documents.\<close>

record store =
  qr_audit :: "audit_record list"
  qr_verify_logs :: "verify_record list"

text \<open>
  What one call of the service meets outside: the clock, the pattern service behind
  \<open>axios.post(url, body, { timeout })\<close> (a rejection, or the response's \<open>data\<close>,
  which may be empty), and whether the database rejects an insert.
\<close>

record env =
  date_now :: int   \<comment> \<open>\<open>Date.now()\<close>\<close>
  new_date :: int   \<comment> \<open>\<open>new Date()\<close> of the stored document\<close>
  axios_post :: "string \<Rightarrow> request_body \<Rightarrow> jsnum \<Rightarrow> error + response_data option"
  insert_rejects :: "error option"

definition insertOne :: "env \<Rightarrow> 'd list \<Rightarrow> 'd \<Rightarrow> error + 'd list" where
  \<comment> \<open>\<open>await collection.insertOne(doc)\<close>: the document is appended, or the promise
      rejects and the collection is as it was\<close>
  "insertOne ev coll doc =
     (case insert_rejects ev of Some e \<Rightarrow> Inl e | None \<Rightarrow> Inr (coll @ [doc]))"

subsection \<open>\<open>QrService\<close>\<close>

definition validateInput :: "GenerateQrInput \<Rightarrow> error + unit" where
  \<comment> \<open>the four calls that open \<open>generate\<close> (lines 49-52): the first that throws ends
      the call\<close>
  "validateInput input =
     (case assertHexLength ''data_hash'' (data_hash input) 8 of Inl e \<Rightarrow> Inl e | Inr _ \<Rightarrow>
      case assertHexLength ''metadata_series'' (metadata_series input) 16 of Inl e \<Rightarrow> Inl e | Inr _ \<Rightarrow>
      case assertHexLength ''metadata_issued'' (metadata_issued input) 16 of Inl e \<Rightarrow> Inl e | Inr _ \<Rightarrow>
      assertHexLength ''metadata_expiry'' (metadata_expiry input) 16)"

definition packPayload :: "int \<Rightarrow> GenerateQrInput \<Rightarrow> error + buffer" where
  \<comment> \<open>lines 55-66: \<open>tsBuffer.writeUIntBE(timestampMs, 0, 6)\<close>, then \<open>Buffer.concat\<close>\<close>
  "packPayload timestampMs input =
     (case writeUIntBE timestampMs 6 of
        Inl e \<Rightarrow> Inl e
      | Inr tsBuffer \<Rightarrow>
          Inr (tsBuffer @ hexToBuffer (data_hash input) @ hexToBuffer (metadata_series input)
               @ hexToBuffer (metadata_issued input) @ hexToBuffer (metadata_expiry input)))"

definition signPayload :: "string \<Rightarrow> buffer \<Rightarrow> string" where
  \<comment> \<open>lines 69-73:
      \<open>createHmac("sha256", secret).update(payload).digest("hex").slice(0, 32)\<close>\<close>
  "signPayload secret payloadBinary = take 32 (to_hex (hmac_sha256 (bytes_of secret) payloadBinary))"

definition encodePayload :: "buffer \<Rightarrow> string" where
  \<comment> \<open>lines 76-80: \<open>toString("base64")\<close>, then \<open>+\<close> to \<open>-\<close>, \<open>/\<close> to \<open>_\<close>, and
      every \<open>=\<close> removed\<close>
  "encodePayload payloadBinary =
     remove_all CHR ''='' (replace_all CHR ''/'' CHR ''_''
       (replace_all CHR ''+'' CHR ''-'' (base64_encode payloadBinary)))"

definition makeToken :: "string \<Rightarrow> buffer \<Rightarrow> string" where
  \<comment> \<open>line 82: the template literal \<open>payloadB64.hmac\<close>\<close>
  "makeToken secret payloadBinary =
     encodePayload payloadBinary @ ''.'' @ signPayload secret payloadBinary"

definition generate ::
  "config \<Rightarrow> env \<Rightarrow> store \<Rightarrow> GenerateQrInput \<Rightarrow> (error + GenerateQrOutput) \<times> store" where
  \<comment> \<open>lines 47-111: validate, pack, sign and encode, render, store the audit record,
      return; every \<open>await\<close> that rejects ends the call with that error\<close>
  "generate cfg ev st input =
     (case validateInput input of Inl e \<Rightarrow> (Inl e, st) | Inr _ \<Rightarrow>
      case packPayload (date_now ev) input of Inl e \<Rightarrow> (Inl e, st) | Inr payloadBinary \<Rightarrow>
      let token' = makeToken (hmacSecret cfg) payloadBinary in
      case axios_post ev (pythonServiceUrl cfg @ ''/generate-protected-qr'')
             (GenerateBody token' 600 1) (requestTimeoutMs cfg) of
        Inl e \<Rightarrow> (Inl e, st)
      | Inr data \<Rightarrow>
          let qrImageBase64 = (case data of None \<Rightarrow> None | Some d \<Rightarrow> res_qr_image_base64 d) in
          case insertOne ev (qr_audit st)
                 \<lparr> audit_token = token',
                   audit_data_hash = data_hash input,
                   audit_metadata_series = metadata_series input,
                   audit_metadata_issued = metadata_issued input,
                   audit_metadata_expiry = metadata_expiry input,
                   audit_created_at = new_date ev \<rparr> of
            Inl e \<Rightarrow> (Inl e, st)
          | Inr coll \<Rightarrow>
              (Inr \<lparr> token = token', qr_image_base64 = qrImageBase64 \<rparr>,
               st\<lparr> qr_audit := coll \<rparr>))"

definition tokenPayload :: "string \<Rightarrow> error + buffer" where
  \<comment> \<open>lines 147-153 of \<open>decodeToken\<close>, up to \<open>Buffer.from(paddedB64, "base64")\<close>;
      the array pattern \<open>[payloadB64]\<close> binds the first segment, and a method called on
      an undefined one would throw\<close>
  "tokenPayload token' =
     (case js_split CHR ''.'' token' of
        [] \<Rightarrow> Inl TypeError
      | payloadB64 # _ \<Rightarrow>
          let padded = replace_all CHR ''_'' CHR ''/'' (replace_all CHR ''-'' CHR ''+'' payloadB64);
              padLength = (4 - int (length padded) mod 4) mod 4
          in case js_repeat ''='' padLength of
               Inl e \<Rightarrow> Inl e
             | Inr pad \<Rightarrow> Inr (base64_decode (padded @ pad)))"

definition decodeToken :: "string \<Rightarrow> error + DecodedMeta option" where
  \<comment> \<open>lines 146-166: null (\<open>None\<close>) unless the payload has 34 bytes\<close>
  "decodeToken token' =
     (case tokenPayload token' of
        Inl e \<Rightarrow> Inl e
      | Inr payload \<Rightarrow>
          if length payload \<noteq> 34 then Inr None
          else Inr (Some \<lparr> data_hash = to_hex (subarray payload 6 10),
                           metadata_series = to_hex (subarray payload 10 18),
                           metadata_issued = to_hex (subarray payload 18 26),
                           metadata_expiry = to_hex (subarray payload 26 34) \<rparr>))"

definition verify ::
  "config \<Rightarrow> env \<Rightarrow> store \<Rightarrow> string \<Rightarrow> (error + VerifyQrOutput) \<times> store" where
  \<comment> \<open>lines 116-140. \<open>pythonRes.data || {}\<close>: without data every property is
      undefined. \<open>token ? decodeToken(token) : null\<close>: an absent or empty token is not
      decoded. \<open>token ?? null\<close>, \<open>confidence_score ?? 0\<close>, \<open>Boolean(is_authentic)\<close>\<close>
  "verify cfg ev st imageBase64 =
     (case axios_post ev (pythonServiceUrl cfg @ ''/verify-protected-qr'')
             (VerifyBody imageBase64) (requestTimeoutMs cfg) of
        Inl e \<Rightarrow> (Inl e, st)
      | Inr data \<Rightarrow>
          let token' = (case data of None \<Rightarrow> None | Some d \<Rightarrow> res_token d);
              confidence_score' = (case data of None \<Rightarrow> None | Some d \<Rightarrow> res_confidence_score d);
              is_authentic' = (case data of None \<Rightarrow> None | Some d \<Rightarrow> res_is_authentic d)
          in case (case token' of
                     None \<Rightarrow> Inr None
                   | Some t \<Rightarrow> if t = [] then Inr None else decodeToken t) of
               Inl e \<Rightarrow> (Inl e, st)
             | Inr decodedMeta \<Rightarrow>
                 (case insertOne ev (qr_verify_logs st)
                         \<lparr> log_token = token',
                           log_confidence_score = (case confidence_score' of None \<Rightarrow> 0 | Some c \<Rightarrow> c),
                           log_is_authentic = (is_authentic' = Some True),
                           log_created_at = new_date ev \<rparr> of
                    Inl e \<Rightarrow> (Inl e, st)
                  | Inr coll \<Rightarrow>
                      (Inr \<lparr> is_authentic = (is_authentic' = Some True),
                             confidence_score = (case confidence_score' of None \<Rightarrow> 0 | Some c \<Rightarrow> c),
                             decoded_meta = decodedMeta \<rparr>,
                       st\<lparr> qr_verify_logs := coll \<rparr>)))"

subsection \<open>The generate endpoint and the error handler\<close>

text \<open>
  \<^verbatim>\<open>controllers/qr.controller.ts\<close>, \<^verbatim>\<open>utils/async-handler.ts\<close> and
  \<open>errorHandler\<close> (\<^verbatim>\<open>types/express.d.ts\<close>), which \<open>createApp\<close> installs last. The log is the list of
  the calls made to the logger. A request body is its four properties, each absent
  unless it is a string; the details that an \<open>HttpException\<close> may carry are left out.
\<close>

datatype log_entry =
    LogWarn string nat  \<comment> \<open>\<open>logger.warn({ message, details, status })\<close>\<close>
  | LogError error      \<comment> \<open>\<open>logger.error({ message, err })\<close>\<close>

datatype http_response =
    Respond200 GenerateQrOutput  \<comment> \<open>\<open>res.status(200).json({ success: true, data })\<close>\<close>
  | RespondError nat error       \<comment> \<open>\<open>res.status(status).json({ success: false, error })\<close>
                                     with the message of the error\<close>

record request_body_fields =
  req_data_hash :: "string option"
  req_metadata_series :: "string option"
  req_metadata_issued :: "string option"
  req_metadata_expiry :: "string option"

definition generateQrSchema :: "request_body_fields \<Rightarrow> GenerateQrInput option" where
  \<comment> \<open>\<open>generateQrSchema.safeParse(req.body)\<close>: four strings of lengths 8, 16, 16, 16\<close>
  "generateQrSchema body =
     (case (req_data_hash body, req_metadata_series body,
            req_metadata_issued body, req_metadata_expiry body) of
        (Some d, Some s, Some i, Some x) \<Rightarrow>
          if length d = 8 \<and> length s = 16 \<and> length i = 16 \<and> length x = 16
          then Some \<lparr> data_hash = d, metadata_series = s, metadata_issued = i,
                      metadata_expiry = x \<rparr>
          else None
      | _ \<Rightarrow> None)"

definition errorHandler :: "error \<Rightarrow> log_entry list \<Rightarrow> http_response \<times> log_entry list" where
  \<comment> \<open>an \<open>HttpException\<close> is logged as a warning and answered with its status; any
      other error is logged with \<open>logger.error\<close> and answered with status 500\<close>
  "errorHandler err lg =
     (case err of
        HttpException status message \<Rightarrow>
          (RespondError status err, lg @ [LogWarn message status])
      | _ \<Rightarrow> (RespondError 500 err, lg @ [LogError err]))"

record handled =
  response :: http_response
  store_after :: store
  log_after :: "log_entry list"

definition generateHandler ::
  "config \<Rightarrow> env \<Rightarrow> store \<Rightarrow> log_entry list \<Rightarrow> request_body_fields \<Rightarrow> handled" where
  \<comment> \<open>the controller's \<open>generate\<close> inside \<open>asyncHandler\<close>: what the handler throws
      or rejects with goes through \<open>catch(next)\<close> to \<open>errorHandler\<close>\<close>
  "generateHandler cfg ev st lg body =
     (case generateQrSchema body of
        None \<Rightarrow>
          (case errorHandler (HttpException 400 ''Invalid request body'') lg of
             (r, lg') \<Rightarrow> \<lparr> response = r, store_after = st, log_after = lg' \<rparr>)
      | Some parsed \<Rightarrow>
          (case generate cfg ev st parsed of
             (Inl e, st') \<Rightarrow>
               (case errorHandler e lg of
                  (r, lg') \<Rightarrow> \<lparr> response = r, store_after = st', log_after = lg' \<rparr>)
           | (Inr data, st') \<Rightarrow>
               \<lparr> response = Respond200 data, store_after = st', log_after = lg \<rparr>))"

text \<open>
  The two character replacements taken together: what \<open>generate\<close> does to a Base64
  character, and what \<open>decodeToken\<close> does to a character of a token.
\<close>

definition url_char :: "char \<Rightarrow> char" where
  "url_char c = (if c = CHR ''+'' then CHR ''-'' else if c = CHR ''/'' then CHR ''_'' else c)"

definition std_char :: "char \<Rightarrow> char" where
  "std_char c = (if c = CHR ''-'' then CHR ''+'' else if c = CHR ''_'' then CHR ''/'' else c)"

subsection \<open>Sample values\<close>

text \<open>The example request of the README, issued at a fixed clock reading.\<close>

definition sample_config :: config where
  "sample_config =
     \<lparr> port = NumLit 8080, mongoUri = ''mongodb://localhost:27017'',
       mongoDb = ''protected_qr'', pythonServiceUrl = ''http://localhost:8000'',
       hmacSecret = ''secret'', logLevel = ''info'', requestTimeoutMs = NumLit 10000 \<rparr>"

definition sample_input :: GenerateQrInput where
  "sample_input =
     \<lparr> data_hash = ''a1b2c3d4'', metadata_series = ''1234567890abcdef'',
       metadata_issued = ''0011223344556677'', metadata_expiry = ''8899aabbccddeeff'' \<rparr>"

definition sample_payload :: buffer where
  \<comment> \<open>the payload of \<open>sample_input\<close> at the clock reading 1700000000000\<close>
  "sample_payload =
     [1, 139, 207, 229, 104, 0, 161, 178, 195, 212, 18, 52, 86, 120, 144, 171, 205, 239,
      0, 17, 34, 51, 68, 85, 102, 119, 136, 153, 170, 187, 204, 221, 238, 255]"

definition sample_response :: "string option \<Rightarrow> response_data" where
  \<comment> \<open>a response of the pattern service that reports the given token\<close>
  "sample_response tok =
     \<lparr> res_qr_image_base64 = Some ''iVBORw0'', res_token = tok,
       res_confidence_score = Some (17 / 20), res_is_authentic = Some True \<rparr>"

definition sample_env :: "(error + response_data option) \<Rightarrow> error option \<Rightarrow> env" where
  \<comment> \<open>a pattern service that answers every request with \<open>reply\<close>, and a database
      that rejects inserts with \<open>rej\<close> if given\<close>
  "sample_env reply rej =
     \<lparr> date_now = 1700000000000, new_date = 1700000000005,
       axios_post = (\<lambda>url body t. reply), insert_rejects = rej \<rparr>"

definition empty_store :: store where
  "empty_store = \<lparr> qr_audit = [], qr_verify_logs = [] \<rparr>"

definition sample_body :: request_body_fields where
  "sample_body =
     \<lparr> req_data_hash = Some ''a1b2c3d4'', req_metadata_series = Some ''1234567890abcdef'',
       req_metadata_issued = Some ''0011223344556677'',
       req_metadata_expiry = Some ''8899aabbccddeeff'' \<rparr>"

definition sample_penv :: "string \<rightharpoonup> string" where
  \<comment> \<open>an environment that sets every variable but \<open>REQUEST_TIMEOUT_MS\<close> and \<open>LOG_LEVEL\<close>\<close>
  "sample_penv =
     [''PORT'' \<mapsto> ''8080'', ''MONGO_URI'' \<mapsto> ''mongodb://localhost:27017'',
      ''MONGO_DB'' \<mapsto> ''protected_qr'', ''PYTHON_SERVICE_URL'' \<mapsto> ''http://localhost:8000'',
      ''HMAC_SECRET'' \<mapsto> ''secret'']"

section \<open>Properties of the encodings\<close>

lemma unat_byte_less: "unat (b :: byte) < 256"
  using unsigned_less [of b, where 'a = nat] by simp

lemma hexdigit_table: "list_all (\<lambda>n. unhex (hexdigit n) = Some n) [0..<16]"
  by code_simp

lemma unhex_hexdigit: "n < 16 \<Longrightarrow> unhex (hexdigit n) = Some n"
  using hexdigit_table by (simp add: list_all_iff)

lemma hexdigit_lower_table: "list_all (\<lambda>n. hexdigit n \<in> set ''0123456789abcdef'') [0..<16]"
  by code_simp

lemma hexdigit_lower: "n < 16 \<Longrightarrow> hexdigit n \<in> set ''0123456789abcdef''"
  using hexdigit_lower_table by (simp add: list_all_iff del: set_simps)

lemma byte_nibbles: "of_nat (16 * (unat b div 16) + unat b mod 16) = (b :: byte)"
  by simp

lemma to_hex_Nil: "to_hex [] = []"
  by (simp add: to_hex_def)

lemma to_hex_Cons: "to_hex (b # bs) = hexdigit (unat b div 16) # hexdigit (unat b mod 16) # to_hex bs"
  by (simp add: to_hex_def)

lemma to_hex_append: "to_hex (xs @ ys) = to_hex xs @ to_hex ys"
  by (simp add: to_hex_def)

lemma length_to_hex: "length (to_hex bs) = 2 * length bs"
  by (induction bs) (simp_all add: to_hex_Nil to_hex_Cons)

lemma hex_decode_to_hex: "hex_decode (to_hex bs) = bs"
proof (induction bs)
  case Nil
  show ?case by (simp add: to_hex_Nil)
next
  case (Cons b bs)
  have hi: "unat b div 16 < 16" using unat_byte_less [of b] by simp
  have lo: "unat b mod 16 < 16" by simp
  show ?case
    by (simp add: to_hex_Cons unhex_hexdigit [OF hi] unhex_hexdigit [OF lo] Cons.IH)
qed

lemma set_to_hex: "set (to_hex bs) \<subseteq> set ''0123456789abcdef''"
proof (induction bs)
  case Nil
  show ?case by (simp add: to_hex_Nil)
next
  case (Cons b bs)
  have hi: "unat b div 16 < 16" using unat_byte_less [of b] by simp
  have lo: "unat b mod 16 < 16" by simp
  show ?case
    using Cons.IH hexdigit_lower [OF hi] hexdigit_lower [OF lo]
    by (simp add: to_hex_Cons del: set_simps) auto
qed

lemma unhex_is_hex_char: "is_hex_char c \<Longrightarrow> \<exists>n. unhex c = Some n"
  by (auto simp: is_hex_char_def unhex_def)

lemma length_hex_decode:
  "list_all is_hex_char s \<Longrightarrow> length (hex_decode s) = length s div 2"
proof (induction s rule: hex_decode.induct)
  case (1 a b rest)
  from "1.prems" obtain h l where h: "unhex a = Some h" and l: "unhex b = Some l"
    using unhex_is_hex_char [of a] unhex_is_hex_char [of b] by auto
  from "1.prems" have "list_all is_hex_char rest" by simp
  with "1.IH" [OF h l] show ?case by (simp add: h l)
qed simp_all

lemma assertHexLength_Inr:
  "assertHexLength label v n = Inr u \<longleftrightarrow> test_hex v \<and> length v = n"
  by (simp add: assertHexLength_def)

lemma length_hexToBuffer:
  "assertHexLength label v (2 * k) = Inr u \<Longrightarrow> length (hexToBuffer v) = k"
  by (simp add: assertHexLength_Inr hexToBuffer_def test_hex_def length_hex_decode)

lemma b64_table:
  "list_all (\<lambda>n. unbase64 (b64_char n) = Some n \<and> b64_char n \<noteq> CHR ''=''
      \<and> b64_char n \<noteq> CHR ''-'' \<and> b64_char n \<noteq> CHR ''_'' \<and> b64_char n \<noteq> CHR ''.'') [0..<64]"
  by code_simp

lemma b64_char_facts:
  assumes "n < 64"
  shows "unbase64 (b64_char n) = Some n" "b64_char n \<noteq> CHR ''=''"
    "b64_char n \<noteq> CHR ''-''" "b64_char n \<noteq> CHR ''_''" "b64_char n \<noteq> CHR ''.''"
  using b64_table assms by (simp_all add: list_all_iff)

lemma sextet_arith1: fixes x y :: nat assumes "y < 256"
  shows "x div 4 * 4 + (x mod 4 * 16 + y div 16) div 16 = x"
proof -
  have "y div 16 < 16" using assms by simp
  then have "(x mod 4 * 16 + y div 16) div 16 = x mod 4" by simp
  then show ?thesis by simp
qed

lemma sextet_arith2: fixes x y z :: nat assumes "y < 256" "z < 256"
  shows "(x mod 4 * 16 + y div 16) mod 16 * 16 + (y mod 16 * 4 + z div 64) div 4 = y"
proof -
  have "y div 16 < 16" using assms by simp
  then have a: "(x mod 4 * 16 + y div 16) mod 16 = y div 16" by simp
  have "z div 64 < 4" using assms by simp
  then have b: "(y mod 16 * 4 + z div 64) div 4 = y mod 16" by simp
  show ?thesis unfolding a b by simp
qed

lemma sextet_arith3: fixes y z :: nat assumes "z < 256"
  shows "(y mod 16 * 4 + z div 64) mod 4 * 64 + z mod 64 = z"
proof -
  have "z div 64 < 4" using assms by simp
  then have a: "(y mod 16 * 4 + z div 64) mod 4 = z div 64" by simp
  show ?thesis unfolding a by simp
qed

lemma sextet_arith4: fixes x y :: nat assumes "y < 256"
  shows "(x mod 4 * 16 + y div 16) mod 16 * 16 + (y mod 16 * 4) div 4 = y"
proof -
  have "y div 16 < 16" using assms by simp
  then have a: "(x mod 4 * 16 + y div 16) mod 16 = y div 16" by simp
  show ?thesis unfolding a by simp
qed

lemma sextet_arith5: fixes x :: nat
  shows "x div 4 * 4 + (x mod 4 * 16) div 16 = x"
  by simp

lemma sextet_bounds: fixes x y :: nat assumes "x < 256" "y < 256"
  shows "x div 4 < 64" "x mod 4 * 16 + y div 16 < 64" "y mod 16 * 4 + x div 64 < 64" "x mod 64 < 64"
    "y mod 16 * 4 < 64" "x mod 4 * 16 < 64"
proof -
  have a: "x mod 4 < 4" "y mod 16 < 16" by simp_all
  have b: "y div 16 < 16" "x div 64 < 4" using assms by simp_all
  show "x div 4 < 64" using assms by simp
  show "x mod 4 * 16 + y div 16 < 64" using a b by linarith
  show "y mod 16 * 4 + x div 64 < 64" using a b by linarith
  show "x mod 64 < 64" by simp
  show "y mod 16 * 4 < 64" using a by linarith
  show "x mod 4 * 16 < 64" using a by linarith
qed

lemma sextet_bytes_enc: "sextet_bytes (enc_sextets bs) = bs"
proof (induction bs rule: enc_sextets.induct)
  case (1 a b c rest)
  note lb = unat_byte_less [of b] and lc = unat_byte_less [of c]
  have "sextet_bytes (enc_sextets (a # b # c # rest)) =
      [of_nat (unat a), of_nat (unat b), of_nat (unat c)] @ sextet_bytes (enc_sextets rest)"
    by (simp only: enc_sextets.simps sextet_bytes.simps append_Cons append_Nil
        sextet_arith1 [OF lb] sextet_arith2 [OF lb lc] sextet_arith3 [OF lc])
  then show ?case by (simp add: "1.IH")
next
  case (2 a b)
  note lb = unat_byte_less [of b]
  have "sextet_bytes (enc_sextets [a, b]) = [of_nat (unat a), of_nat (unat b)]"
    by (simp only: enc_sextets.simps sextet_bytes.simps
        sextet_arith1 [OF lb] sextet_arith4 [OF lb])
  then show ?case by simp
next
  case (3 a)
  have "sextet_bytes (enc_sextets [a]) = [of_nat (unat a)]"
    by (simp only: enc_sextets.simps sextet_bytes.simps sextet_arith5)
  then show ?case by simp
next
  case 4
  show ?case by simp
qed

lemma enc_sextets_less: "n \<in> set (enc_sextets bs) \<Longrightarrow> n < 64"
proof (induction bs arbitrary: n rule: enc_sextets.induct)
  case (1 a b c rest)
  note sextet_bounds [OF unat_byte_less [of a] unat_byte_less [of b]]
    sextet_bounds [OF unat_byte_less [of c] unat_byte_less [of b]]
  with 1 show ?case by auto
next
  case (2 a b)
  note sextet_bounds [OF unat_byte_less [of a] unat_byte_less [of b]]
  with 2 show ?case by auto
next
  case (3 a)
  note sextet_bounds [OF unat_byte_less [of a] unat_byte_less [of a]]
  with 3 show ?case by auto
next
  case 4
  then show ?case by simp
qed

lemma length_enc_sextets: "length (enc_sextets bs) = (4 * length bs + 2) div 3"
  by (induction bs rule: enc_sextets.induct) simp_all

lemma url_table:
  "list_all (\<lambda>n. std_char (url_char (b64_char n)) = b64_char n
      \<and> url_char (b64_char n) \<noteq> CHR ''='' \<and> url_char (b64_char n) \<noteq> CHR ''.''
      \<and> url_char (b64_char n) \<in> set ''ABCDEFGHIJKLMNOPQRSTUVWXYZabcdefghijklmnopqrstuvwxyz0123456789-_'') [0..<64]"
  by code_simp

lemma url_char_facts:
  assumes "n < 64"
  shows "std_char (url_char (b64_char n)) = b64_char n"
    "url_char (b64_char n) \<noteq> CHR ''=''" "url_char (b64_char n) \<noteq> CHR ''.''"
    "url_char (b64_char n) \<in> set ''ABCDEFGHIJKLMNOPQRSTUVWXYZabcdefghijklmnopqrstuvwxyz0123456789-_''"
  using url_table assms by (simp_all add: list_all_iff del: set_simps)

lemma replace_url: "replace_all CHR ''/'' CHR ''_'' (replace_all CHR ''+'' CHR ''-'' s) = map url_char s"
  by (simp add: replace_all_def url_char_def)

lemma replace_std: "replace_all CHR ''_'' CHR ''/'' (replace_all CHR ''-'' CHR ''+'' s) = map std_char s"
  by (simp add: replace_all_def std_char_def)

lemma encodePayload_sextets:
  "encodePayload bs = map (\<lambda>n. url_char (b64_char n)) (enc_sextets bs)"
proof -
  have eq: "url_char CHR ''='' = CHR ''=''" by (simp add: url_char_def)
  have "filter (\<lambda>x. x \<noteq> CHR ''='') (map (\<lambda>n. url_char (b64_char n)) (enc_sextets bs))
      = map (\<lambda>n. url_char (b64_char n)) (enc_sextets bs)"
    by (rule filter_True) (auto dest!: enc_sextets_less simp: url_char_facts)
  then show ?thesis
    by (simp add: encodePayload_def replace_url base64_encode_def remove_all_def eq o_def)
qed

lemma length_encodePayload: "length (encodePayload bs) = (4 * length bs + 2) div 3"
  by (simp add: encodePayload_sextets length_enc_sextets)

lemma encodePayload_chars:
  "c \<in> set (encodePayload bs) \<Longrightarrow>
     c \<in> set ''ABCDEFGHIJKLMNOPQRSTUVWXYZabcdefghijklmnopqrstuvwxyz0123456789-_''"
  unfolding encodePayload_sextets using enc_sextets_less url_char_facts(4) by fastforce

lemma encodePayload_no_pad: "CHR ''='' \<notin> set (encodePayload bs)"
  using encodePayload_chars [of "CHR ''=''" bs] by auto

lemma encodePayload_no_dot: "CHR ''.'' \<notin> set (encodePayload bs)"
  using encodePayload_chars [of "CHR ''.''" bs] by auto

lemma js_split_first: "\<exists>ws. js_split sep s = takeWhile (\<lambda>c. c \<noteq> sep) s # ws"
  by (induction s) auto

lemma js_split_token:
  assumes "sep \<notin> set p"
  shows "\<exists>ws. js_split sep (p @ sep # rest) = p # ws"
proof -
  have "takeWhile (\<lambda>c. c \<noteq> sep) (p @ sep # rest) = p"
    using assms by (induction p) auto
  with js_split_first [of sep "p @ sep # rest"] show ?thesis by simp
qed

lemma js_repeat_pad:
  "js_repeat [c] (k mod 4) = Inr (replicate (nat (k mod 4)) c)"
  by (simp add: js_repeat_def)

lemma sextets_padded:
  assumes "\<forall>n\<in>set ns. n < 64"
  shows "sextets (map b64_char ns @ replicate k CHR ''='') = ns"
proof -
  have tw: "takeWhile (\<lambda>c. c \<noteq> CHR ''='') (map b64_char ns @ replicate k CHR ''='') = map b64_char ns"
    using assms by (induction ns) (auto simp: b64_char_facts takeWhile_replicate)
  have "List.map_filter unbase64 (map b64_char ns) = ns"
    using assms by (induction ns) (auto simp: b64_char_facts)
  with tw show ?thesis by (simp add: sextets_def)
qed

lemma tokenPayload_encode:
  "tokenPayload (encodePayload bs @ CHR ''.'' # sg) = Inr bs"
proof -
  obtain ws where sp: "js_split CHR ''.'' (encodePayload bs @ CHR ''.'' # sg) = encodePayload bs # ws"
    using js_split_token [OF encodePayload_no_dot] by blast
  have small: "\<forall>n\<in>set (enc_sextets bs). n < 64"
    using enc_sextets_less by blast
  have padded: "map std_char (encodePayload bs) = map b64_char (enc_sextets bs)"
    unfolding encodePayload_sextets using small by (induction "enc_sextets bs") (auto simp: url_char_facts)
  show ?thesis
    unfolding tokenPayload_def sp
    by (simp add: replace_std padded js_repeat_pad base64_decode_def
        sextets_padded [OF small] sextet_bytes_enc Let_def del: length_map)
qed

text \<open>The test vector of FIPS 180-4 for the one-block message \<open>abc\<close>.\<close>

lemma sha256_abc:
  "to_hex (sha256 (bytes_of ''abc''))
     = ''ba7816bf8f01cfea414140de5dae2223b00361a396177a9cb410ff61f20015ad''"
  by code_simp

lemma length_state_bytes: "length (state_bytes s) = 32"
  by (induction s rule: state_bytes.induct) (simp add: word_bytes_def)

lemma length_sha256: "length (sha256 m) = 32"
  by (simp add: sha256_def Let_def length_state_bytes)

lemma length_hmac_sha256: "length (hmac_sha256 key msg) = 32"
  by (simp add: hmac_sha256_def Let_def length_sha256)

lemma take_to_hex: "take (2 * n) (to_hex bs) = to_hex (take n bs)"
proof (induction bs arbitrary: n)
  case Nil
  show ?case by (simp add: to_hex_Nil)
next
  case (Cons b bs)
  show ?case
  proof (cases n)
    case 0
    then show ?thesis by (simp add: to_hex_Nil)
  next
    case (Suc m)
    then show ?thesis using Cons.IH [of m] by (simp add: to_hex_Cons)
  qed
qed

lemma signPayload_digest:
  "signPayload secret p = to_hex (take 16 (hmac_sha256 (bytes_of secret) p))"
  using take_to_hex [of 16] by (simp add: signPayload_def)

lemma length_signPayload: "length (signPayload secret p) = 32"
  by (simp add: signPayload_digest length_to_hex length_hmac_sha256)

lemma signPayload_chars: "set (signPayload secret p) \<subseteq> set ''0123456789abcdef''"
  unfolding signPayload_digest by (rule set_to_hex)

lemma tokenPayload_total: "\<exists>payload. tokenPayload t = Inr payload"
proof -
  obtain ws where "js_split CHR ''.'' t = takeWhile (\<lambda>c. c \<noteq> CHR ''.'') t # ws"
    using js_split_first by blast
  then show ?thesis
    by (simp add: tokenPayload_def Let_def js_repeat_pad)
qed

lemma decodeToken_total: "\<exists>r. decodeToken t = Inr r"
  using tokenPayload_total [of t] by (auto simp: decodeToken_def)

lemma tokenPayload_ignores_signature:
  assumes "CHR ''.'' \<notin> set p"
  shows "tokenPayload (p @ CHR ''.'' # sg) = tokenPayload p"
proof -
  obtain ws where a: "js_split CHR ''.'' (p @ CHR ''.'' # sg) = p # ws"
    using js_split_token [OF assms] by blast
  have tw: "takeWhile (\<lambda>c. c \<noteq> CHR ''.'') p = p"
    using assms by (induction p) auto
  obtain ws' where "js_split CHR ''.'' p = takeWhile (\<lambda>c. c \<noteq> CHR ''.'') p # ws'"
    using js_split_first by blast
  then have b: "js_split CHR ''.'' p = p # ws'"
    by (simp only: tw)
  show ?thesis
    unfolding tokenPayload_def a b by simp
qed


section \<open>Properties of the service functions\<close>

lemma decodeToken_payload:
  "tokenPayload t = Inr payload \<Longrightarrow>
   decodeToken t =
     (if length payload \<noteq> 34 then Inr None
      else Inr (Some \<lparr> data_hash = to_hex (subarray payload 6 10),
                       metadata_series = to_hex (subarray payload 10 18),
                       metadata_issued = to_hex (subarray payload 18 26),
                       metadata_expiry = to_hex (subarray payload 26 34) \<rparr>))"
  by (simp add: decodeToken_def)

lemma verify_result:
  assumes "axios_post ev (pythonServiceUrl cfg @ ''/verify-protected-qr'') (VerifyBody img)
             (requestTimeoutMs cfg) = Inr data"
  shows "verify cfg ev st img =
     (let token' = (case data of None \<Rightarrow> None | Some d \<Rightarrow> res_token d);
          score = (case (case data of None \<Rightarrow> None | Some d \<Rightarrow> res_confidence_score d) of
                     None \<Rightarrow> 0 | Some c \<Rightarrow> c);
          flag = ((case data of None \<Rightarrow> None | Some d \<Rightarrow> res_is_authentic d) = Some True);
          meta = (case token' of None \<Rightarrow> None
                  | Some t \<Rightarrow> if t = [] then None else projr (decodeToken t))
      in case insert_rejects ev of
           Some e \<Rightarrow> (Inl e, st)
         | None \<Rightarrow>
             (Inr \<lparr> is_authentic = flag, confidence_score = score, decoded_meta = meta \<rparr>,
              st\<lparr> qr_verify_logs := qr_verify_logs st @
                    [\<lparr> log_token = token', log_confidence_score = score,
                       log_is_authentic = flag, log_created_at = new_date ev \<rparr>] \<rparr>))"
proof -
  let ?tok = "case data of None \<Rightarrow> None | Some d \<Rightarrow> res_token d"
  have "\<exists>r. (case ?tok of None \<Rightarrow> Inr None
               | Some t \<Rightarrow> if t = [] then Inr None else decodeToken t) = Inr r
            \<and> r = (case ?tok of None \<Rightarrow> None
                    | Some t \<Rightarrow> if t = [] then None else projr (decodeToken t))"
    using decodeToken_total by (cases ?tok) (auto, metis sum.sel(2))
  then obtain r where
    r: "(case ?tok of None \<Rightarrow> Inr None
         | Some t \<Rightarrow> if t = [] then Inr None else decodeToken t) = Inr r"
    and r': "r = (case ?tok of None \<Rightarrow> None
                  | Some t \<Rightarrow> if t = [] then None else projr (decodeToken t))"
    by blast
  show ?thesis
    unfolding verify_def assms Let_def sum.case r insertOne_def
    by (simp add: r' split: option.split)
qed

lemma assertHexLength_Inl:
  "assertHexLength label v n = Inl e \<Longrightarrow> \<not> (test_hex v \<and> length v = n)"
  by (auto simp: assertHexLength_def split: if_splits)

lemma validateInput_Inr:
  "validateInput input = Inr u \<longleftrightarrow>
     (test_hex (data_hash input) \<and> length (data_hash input) = 8) \<and>
     (test_hex (metadata_series input) \<and> length (metadata_series input) = 16) \<and>
     (test_hex (metadata_issued input) \<and> length (metadata_issued input) = 16) \<and>
     (test_hex (metadata_expiry input) \<and> length (metadata_expiry input) = 16)"
  by (auto simp: validateInput_def assertHexLength_Inr split: sum.splits dest: assertHexLength_Inl)

lemma length_hexToBuffer_valid:
  "test_hex v \<Longrightarrow> length (hexToBuffer v) = length v div 2"
  by (simp add: hexToBuffer_def test_hex_def length_hex_decode)

lemma writeUIntBE_Inr:
  "writeUIntBE v n = Inr b \<longleftrightarrow>
     0 \<le> v \<and> v < 2 ^ (8 * n) \<and> b = map (\<lambda>i. of_int (v div 256 ^ (n - 1 - i))) [0..<n]"
  by (auto simp: writeUIntBE_def)

lemma writeUIntBE_Inl:
  "writeUIntBE v n = Inl e \<longleftrightarrow> (v < 0 \<or> 2 ^ (8 * n) \<le> v) \<and> e = RangeError"
  by (auto simp: writeUIntBE_def)

lemma length_writeUIntBE: "writeUIntBE v n = Inr b \<Longrightarrow> length b = n"
  by (auto simp: writeUIntBE_Inr)

lemma packPayload_Inr:
  "packPayload ts input = Inr p \<longleftrightarrow>
     (\<exists>tsBuffer. writeUIntBE ts 6 = Inr tsBuffer \<and>
        p = tsBuffer @ hexToBuffer (data_hash input) @ hexToBuffer (metadata_series input)
              @ hexToBuffer (metadata_issued input) @ hexToBuffer (metadata_expiry input))"
  by (auto simp: packPayload_def split: sum.splits)

lemma packPayload_fields:
  assumes v: "validateInput input = Inr u" and p: "packPayload ts input = Inr p"
  shows "length p = 34"
    and "subarray p 6 10 = hexToBuffer (data_hash input)"
    and "subarray p 10 18 = hexToBuffer (metadata_series input)"
    and "subarray p 18 26 = hexToBuffer (metadata_issued input)"
    and "subarray p 26 34 = hexToBuffer (metadata_expiry input)"
proof -
  from p obtain t where t: "writeUIntBE ts 6 = Inr t"
    and eq: "p = t @ hexToBuffer (data_hash input) @ hexToBuffer (metadata_series input)
              @ hexToBuffer (metadata_issued input) @ hexToBuffer (metadata_expiry input)"
    by (auto simp: packPayload_Inr)
  have lt: "length t = 6" using t by (rule length_writeUIntBE)
  from v have l: "length (hexToBuffer (data_hash input)) = 4"
    "length (hexToBuffer (metadata_series input)) = 8"
    "length (hexToBuffer (metadata_issued input)) = 8"
    "length (hexToBuffer (metadata_expiry input)) = 8"
    by (simp_all add: validateInput_Inr length_hexToBuffer_valid)
  show "length p = 34" by (simp add: eq lt l)
  show "subarray p 6 10 = hexToBuffer (data_hash input)"
    by (simp add: subarray_def eq lt l)
  show "subarray p 10 18 = hexToBuffer (metadata_series input)"
    by (simp add: subarray_def eq lt l)
  show "subarray p 18 26 = hexToBuffer (metadata_issued input)"
    by (simp add: subarray_def eq lt l)
  show "subarray p 26 34 = hexToBuffer (metadata_expiry input)"
    by (simp add: subarray_def eq lt l)
qed

lemma decodeToken_makeToken:
  "decodeToken (makeToken secret p) =
     (if length p \<noteq> 34 then Inr None
      else Inr (Some \<lparr> data_hash = to_hex (subarray p 6 10),
                       metadata_series = to_hex (subarray p 10 18),
                       metadata_issued = to_hex (subarray p 18 26),
                       metadata_expiry = to_hex (subarray p 26 34) \<rparr>))"
  using decodeToken_payload [OF tokenPayload_encode [of p "signPayload secret p"]]
  by (simp add: makeToken_def)

lemma hexToBuffer_to_hex: "hexToBuffer (to_hex bs) = bs"
  by (simp add: hexToBuffer_def hex_decode_to_hex)

section \<open>The claims\<close>

subsection \<open>Decoding never throws\<close>

lemma decodeToken_no_separator: "decodeToken ''no separator'' = Inr None"
  by code_simp

lemma decodeToken_bad_chars: "decodeToken ''@@@@.00'' = Inr None"
  by code_simp

lemma decodeToken_empty_payload: "decodeToken ''.7dd491de8925a30c62a14df35f757174'' = Inr None"
  by code_simp

lemma decodeToken_empty: "decodeToken [] = Inr None"
  by code_simp

text \<open>
  Claim C10. \<open>decodeToken\<close> is total over strings: for every token, also one without a
  \<open>.\<close> separator, with characters outside Base64url or with an empty payload
  segment, it returns the metadata record or null and throws nothing. So whenever the
  detection call returns and the database accepts the insert, \<open>verify\<close> returns a
  result, whatever token the detector reported.
\<close>

theorem decodeToken_never_throws:
  "(\<exists>r. decodeToken t = Inr r) \<and>
   (axios_post ev (pythonServiceUrl cfg @ ''/verify-protected-qr'') (VerifyBody img)
        (requestTimeoutMs cfg) = Inr data \<and> insert_rejects ev = None
      \<longrightarrow> (\<exists>out. fst (verify cfg ev st img) = Inr out))"
proof (intro conjI impI)
  show "\<exists>r. decodeToken t = Inr r" by (rule decodeToken_total)
next
  assume a: "axios_post ev (pythonServiceUrl cfg @ ''/verify-protected-qr'') (VerifyBody img)
        (requestTimeoutMs cfg) = Inr data \<and> insert_rejects ev = None"
  then show "\<exists>out. fst (verify cfg ev st img) = Inr out"
    using verify_result [of ev cfg img data st] by (simp add: Let_def)
qed

theorem decodeToken_never_throws_witness:
  "decodeToken ''no separator'' = Inr None \<and>
   decodeToken ''@@@@.00'' = Inr None \<and>
   decodeToken ''.7dd491de8925a30c62a14df35f757174'' = Inr None \<and>
   fst (verify sample_config (sample_env (Inr (Some (sample_response (Some ''@@@@.00'')))) None)
          empty_store ''aW1hZ2U='')
     = Inr \<lparr> is_authentic = True, confidence_score = 17 / 20, decoded_meta = None \<rparr>"
proof -
  let ?ev = "sample_env (Inr (Some (sample_response (Some ''@@@@.00'')))) None"
  have post: "axios_post ?ev (pythonServiceUrl sample_config @ ''/verify-protected-qr'')
      (VerifyBody ''aW1hZ2U='') (requestTimeoutMs sample_config)
      = Inr (Some (sample_response (Some ''@@@@.00''))) \<and> insert_rejects ?ev = None"
    by (simp add: sample_env_def)
  from decodeToken_never_throws [of "''@@@@.00''" ?ev sample_config "''aW1hZ2U=''"
      "Some (sample_response (Some ''@@@@.00''))" empty_store] post
  obtain out where "fst (verify sample_config ?ev empty_store ''aW1hZ2U='') = Inr out"
    by blast
  moreover have "verify sample_config ?ev empty_store ''aW1hZ2U='' =
      (Inr \<lparr> is_authentic = True, confidence_score = 17 / 20, decoded_meta = None \<rparr>,
       empty_store\<lparr> qr_verify_logs := qr_verify_logs empty_store @
          [\<lparr> log_token = Some ''@@@@.00'', log_confidence_score = 17 / 20,
             log_is_authentic = True, log_created_at = 1700000000005 \<rparr>] \<rparr>)"
    using verify_result [of ?ev sample_config "''aW1hZ2U=''" "Some (sample_response (Some ''@@@@.00''))" empty_store] post
    by (simp add: decodeToken_bad_chars sample_response_def sample_env_def Let_def)
  ultimately show ?thesis
    by (simp add: decodeToken_no_separator decodeToken_bad_chars decodeToken_empty_payload)
qed

subsection \<open>A payload of the wrong length is rejected\<close>

lemma length_subarray: "e \<le> length buf \<Longrightarrow> length (subarray buf s e) = e - s"
  by (simp add: subarray_def)

lemma tokenPayload_short: "tokenPayload ''AQID.00'' = Inr [1, 2, 3]"
  by code_simp

lemma tokenPayload_long:
  "tokenPayload ''AYvP5WgAobLD1BI0VniQq83vABEiM0RVZneImaq7zN3u_wAA'' = Inr (sample_payload @ [0, 0])"
  by code_simp

lemma tokenPayload_sample:
  "tokenPayload ''AYvP5WgAobLD1BI0VniQq83vABEiM0RVZneImaq7zN3u_w.DEADBEEFDEADBEEFDEADBEEFDEADBEEF''
     = Inr sample_payload"
  by code_simp

lemma decodeToken_sample:
  "decodeToken ''AYvP5WgAobLD1BI0VniQq83vABEiM0RVZneImaq7zN3u_w.DEADBEEFDEADBEEFDEADBEEFDEADBEEF''
     = Inr (Some sample_input)"
  by code_simp

text \<open>
  Claim C8. When the payload segment of a token decodes to a buffer whose length is not
  34 bytes, \<open>decodeToken\<close> returns null: in particular for the Base64url text of every
  buffer of another length. A record is returned only from a 34-byte payload, and then
  all four fields are complete (8, 16, 16 and 16 hex characters): no field is read
  from a buffer of the wrong size.
\<close>

theorem wrong_length_rejected:
  "(tokenPayload t = Inr payload \<and> length payload \<noteq> 34 \<longrightarrow> decodeToken t = Inr None) \<and>
   (length bs \<noteq> 34 \<longrightarrow> decodeToken (encodePayload bs @ ''.'' @ sg) = Inr None) \<and>
   (decodeToken t = Inr (Some m) \<longrightarrow>
      (\<exists>payload. tokenPayload t = Inr payload \<and> length payload = 34 \<and>
         m = \<lparr> data_hash = to_hex (subarray payload 6 10),
               metadata_series = to_hex (subarray payload 10 18),
               metadata_issued = to_hex (subarray payload 18 26),
               metadata_expiry = to_hex (subarray payload 26 34) \<rparr> \<and>
         length (data_hash m) = 8 \<and> length (metadata_series m) = 16 \<and>
         length (metadata_issued m) = 16 \<and> length (metadata_expiry m) = 16))"
proof (intro conjI impI)
  assume "tokenPayload t = Inr payload \<and> length payload \<noteq> 34"
  then show "decodeToken t = Inr None"
    by (simp add: decodeToken_payload)
next
  assume "length bs \<noteq> 34"
  then show "decodeToken (encodePayload bs @ ''.'' @ sg) = Inr None"
    using decodeToken_payload [OF tokenPayload_encode [of bs sg]] by simp
next
  assume d: "decodeToken t = Inr (Some m)"
  obtain payload where p: "tokenPayload t = Inr payload"
    using tokenPayload_total by blast
  from d have len: "length payload = 34"
    by (simp add: decodeToken_payload [OF p] split: if_splits)
  from d len have m: "m = \<lparr> data_hash = to_hex (subarray payload 6 10),
               metadata_series = to_hex (subarray payload 10 18),
               metadata_issued = to_hex (subarray payload 18 26),
               metadata_expiry = to_hex (subarray payload 26 34) \<rparr>"
    by (simp add: decodeToken_payload [OF p])
  have "length (data_hash m) = 8" "length (metadata_series m) = 16"
    "length (metadata_issued m) = 16" "length (metadata_expiry m) = 16"
    by (simp_all add: m length_to_hex length_subarray len)
  with p len m show "\<exists>payload. tokenPayload t = Inr payload \<and> length payload = 34 \<and>
         m = \<lparr> data_hash = to_hex (subarray payload 6 10),
               metadata_series = to_hex (subarray payload 10 18),
               metadata_issued = to_hex (subarray payload 18 26),
               metadata_expiry = to_hex (subarray payload 26 34) \<rparr> \<and>
         length (data_hash m) = 8 \<and> length (metadata_series m) = 16 \<and>
         length (metadata_issued m) = 16 \<and> length (metadata_expiry m) = 16"
    by blast
qed

theorem wrong_length_rejected_witness:
  "tokenPayload ''AQID.00'' = Inr [1, 2, 3] \<and> length [1, 2, 3 :: byte] \<noteq> 34 \<and>
   decodeToken ''AQID.00'' = Inr None \<and>
   decodeToken (encodePayload [1, 2, 3] @ ''.'' @ ''00'') = Inr None \<and>
   tokenPayload ''AYvP5WgAobLD1BI0VniQq83vABEiM0RVZneImaq7zN3u_wAA'' = Inr (sample_payload @ [0, 0]) \<and>
   decodeToken ''AYvP5WgAobLD1BI0VniQq83vABEiM0RVZneImaq7zN3u_wAA'' = Inr None \<and>
   decodeToken ''AYvP5WgAobLD1BI0VniQq83vABEiM0RVZneImaq7zN3u_w.DEADBEEFDEADBEEFDEADBEEFDEADBEEF''
     = Inr (Some sample_input) \<and>
   length (data_hash sample_input) = 8 \<and> length (metadata_series sample_input) = 16 \<and>
   length (metadata_issued sample_input) = 16 \<and> length (metadata_expiry sample_input) = 16"
proof -
  have short: "tokenPayload ''AQID.00'' = Inr [1, 2, 3] \<and> length [1, 2, 3 :: byte] \<noteq> 34"
    by (simp add: tokenPayload_short)
  have long: "tokenPayload ''AYvP5WgAobLD1BI0VniQq83vABEiM0RVZneImaq7zN3u_wAA'' = Inr (sample_payload @ [0, 0])
      \<and> length (sample_payload @ [0, 0]) \<noteq> 34"
    by (simp add: tokenPayload_long sample_payload_def)
  have len: "length [1, 2, 3 :: byte] \<noteq> 34" by simp
  note a = wrong_length_rejected [of "''AQID.00''" "[1, 2, 3]" "[1, 2, 3]" "''00''" sample_input]
  note b = wrong_length_rejected [of "''AYvP5WgAobLD1BI0VniQq83vABEiM0RVZneImaq7zN3u_wAA''"
      "sample_payload @ [0, 0]" "[1, 2, 3]" "''00''" sample_input]
  note c = wrong_length_rejected
    [of "''AYvP5WgAobLD1BI0VniQq83vABEiM0RVZneImaq7zN3u_w.DEADBEEFDEADBEEFDEADBEEFDEADBEEF''"
      sample_payload "[1, 2, 3]" "''00''" sample_input]
  from a short have 1: "decodeToken ''AQID.00'' = Inr None" by blast
  from a len have 2: "decodeToken (encodePayload [1, 2, 3] @ ''.'' @ ''00'') = Inr None" by blast
  from b long have 3: "decodeToken ''AYvP5WgAobLD1BI0VniQq83vABEiM0RVZneImaq7zN3u_wAA'' = Inr None"
    by blast
  from c decodeToken_sample have 4: "length (data_hash sample_input) = 8 \<and>
      length (metadata_series sample_input) = 16 \<and>
      length (metadata_issued sample_input) = 16 \<and> length (metadata_expiry sample_input) = 16"
    by blast
  from short long 1 2 3 4 decodeToken_sample show ?thesis by blast
qed

subsection \<open>The signature segment is not checked\<close>

lemma encodePayload_sample:
  "encodePayload sample_payload = ''AYvP5WgAobLD1BI0VniQq83vABEiM0RVZneImaq7zN3u_w''"
  by code_simp

lemma sample_fields:
  "\<lparr> data_hash = to_hex (subarray sample_payload 6 10),
     metadata_series = to_hex (subarray sample_payload 10 18),
     metadata_issued = to_hex (subarray sample_payload 18 26),
     metadata_expiry = to_hex (subarray sample_payload 26 34) \<rparr> = sample_input"
  by code_simp

lemma verify_sample:
  "verify sample_config
     (sample_env (Inr (Some (sample_response
        (Some ''AYvP5WgAobLD1BI0VniQq83vABEiM0RVZneImaq7zN3u_w.DEADBEEFDEADBEEFDEADBEEFDEADBEEF''))))
        None)
     empty_store ''aW1hZ2U='' =
   (Inr \<lparr> is_authentic = True, confidence_score = 17 / 20, decoded_meta = Some sample_input \<rparr>,
    empty_store\<lparr> qr_verify_logs :=
      [\<lparr> log_token = Some ''AYvP5WgAobLD1BI0VniQq83vABEiM0RVZneImaq7zN3u_w.DEADBEEFDEADBEEFDEADBEEFDEADBEEF'',
         log_confidence_score = 17 / 20, log_is_authentic = True,
         log_created_at = 1700000000005 \<rparr>] \<rparr>)"
proof -
  let ?tok = "''AYvP5WgAobLD1BI0VniQq83vABEiM0RVZneImaq7zN3u_w.DEADBEEFDEADBEEFDEADBEEFDEADBEEF''"
  let ?ev = "sample_env (Inr (Some (sample_response (Some ?tok)))) None"
  have post: "axios_post ?ev (pythonServiceUrl sample_config @ ''/verify-protected-qr'')
      (VerifyBody ''aW1hZ2U='') (requestTimeoutMs sample_config)
      = Inr (Some (sample_response (Some ?tok)))"
    by (simp add: sample_env_def)
  show ?thesis
    unfolding verify_result [OF post]
    by (simp add: decodeToken_sample sample_response_def sample_env_def empty_store_def Let_def)
qed

text \<open>
  Claim C1, as stated, fails: the token below carries the payload of the sample request
  and a signature segment that is not the HMAC signature of that payload (the signature
  is lowercase), yet \<open>decodeToken\<close> returns the four fields and \<open>verify\<close> returns
  them as \<open>decoded_meta\<close>.
\<close>

theorem signature_mismatch_counterexample:
  "''DEADBEEFDEADBEEFDEADBEEFDEADBEEF'' \<noteq> signPayload (hmacSecret sample_config) sample_payload \<and>
   tokenPayload ''AYvP5WgAobLD1BI0VniQq83vABEiM0RVZneImaq7zN3u_w.DEADBEEFDEADBEEFDEADBEEFDEADBEEF''
     = Inr sample_payload \<and>
   decodeToken ''AYvP5WgAobLD1BI0VniQq83vABEiM0RVZneImaq7zN3u_w.DEADBEEFDEADBEEFDEADBEEFDEADBEEF''
     = Inr (Some sample_input) \<and>
   fst (verify sample_config
     (sample_env (Inr (Some (sample_response
        (Some ''AYvP5WgAobLD1BI0VniQq83vABEiM0RVZneImaq7zN3u_w.DEADBEEFDEADBEEFDEADBEEFDEADBEEF''))))
        None)
     empty_store ''aW1hZ2U='')
     = Inr \<lparr> is_authentic = True, confidence_score = 17 / 20, decoded_meta = Some sample_input \<rparr>"
proof -
  have "CHR ''D'' \<notin> set (signPayload (hmacSecret sample_config) sample_payload)"
    using signPayload_chars [of "hmacSecret sample_config" sample_payload] by auto
  moreover have "CHR ''D'' \<in> set ''DEADBEEFDEADBEEFDEADBEEFDEADBEEF''"
    by simp
  ultimately have "''DEADBEEFDEADBEEFDEADBEEFDEADBEEF'' \<noteq> signPayload (hmacSecret sample_config) sample_payload"
    by metis
  then show ?thesis
    by (simp add: tokenPayload_sample decodeToken_sample verify_sample)
qed

text \<open>
  Claim C1, amended. \<open>decodeToken\<close> takes no secret and never reads the signature
  segment: two tokens with the same payload segment decode alike, and the Base64url
  text of every 34-byte payload decodes to the payload's four fields whatever signature
  segment follows. Whenever \<open>verify\<close> returns, \<open>is_authentic\<close> and
  \<open>confidence_score\<close> are the detector's values (false and 0 when absent) and
  \<open>decoded_meta\<close> is what \<open>decodeToken\<close> gives for the reported token (null
  for an absent or empty one). So when the detector reports a token with a 34-byte
  payload and any signature segment, and the insert is accepted, \<open>verify\<close> returns
  the payload's four fields as \<open>decoded_meta\<close>, beside the detector's values.
\<close>

theorem signature_not_checked:
  "(CHR ''.'' \<notin> set p \<longrightarrow> decodeToken (p @ ''.'' @ sg) = decodeToken (p @ ''.'' @ sg')) \<and>
   (length payload = 34 \<longrightarrow>
      decodeToken (encodePayload payload @ ''.'' @ sg)
        = Inr (Some \<lparr> data_hash = to_hex (subarray payload 6 10),
                       metadata_series = to_hex (subarray payload 10 18),
                       metadata_issued = to_hex (subarray payload 18 26),
                       metadata_expiry = to_hex (subarray payload 26 34) \<rparr>)) \<and>
   (fst (verify cfg ev st img) = Inr out \<longrightarrow>
      (\<exists>data. axios_post ev (pythonServiceUrl cfg @ ''/verify-protected-qr'') (VerifyBody img)
                 (requestTimeoutMs cfg) = Inr data \<and>
         is_authentic out = ((case data of None \<Rightarrow> None | Some d \<Rightarrow> res_is_authentic d) = Some True) \<and>
         confidence_score out =
           (case (case data of None \<Rightarrow> None | Some d \<Rightarrow> res_confidence_score d) of
              None \<Rightarrow> 0 | Some c \<Rightarrow> c) \<and>
         (case (case data of None \<Rightarrow> None | Some d \<Rightarrow> res_token d) of
            None \<Rightarrow> decoded_meta out = None
          | Some t \<Rightarrow> if t = [] then decoded_meta out = None
                      else decodeToken t = Inr (decoded_meta out)))) \<and>
   (length payload = 34 \<and>
    axios_post ev (pythonServiceUrl cfg @ ''/verify-protected-qr'') (VerifyBody img)
        (requestTimeoutMs cfg) = Inr (Some d) \<and>
    res_token d = Some (encodePayload payload @ ''.'' @ sg) \<and> insert_rejects ev = None \<longrightarrow>
      fst (verify cfg ev st img)
        = Inr \<lparr> is_authentic = (res_is_authentic d = Some True),
                confidence_score = (case res_confidence_score d of None \<Rightarrow> 0 | Some c \<Rightarrow> c),
                decoded_meta =
                  Some \<lparr> data_hash = to_hex (subarray payload 6 10),
                         metadata_series = to_hex (subarray payload 10 18),
                         metadata_issued = to_hex (subarray payload 18 26),
                         metadata_expiry = to_hex (subarray payload 26 34) \<rparr> \<rparr>)"
proof -
  let ?post = "axios_post ev (pythonServiceUrl cfg @ ''/verify-protected-qr'') (VerifyBody img)
                 (requestTimeoutMs cfg)"
  let ?m = "\<lparr> data_hash = to_hex (subarray payload 6 10),
             metadata_series = to_hex (subarray payload 10 18),
             metadata_issued = to_hex (subarray payload 18 26),
             metadata_expiry = to_hex (subarray payload 26 34) \<rparr>"
  have same: "CHR ''.'' \<notin> set p \<longrightarrow> decodeToken (p @ ''.'' @ sg) = decodeToken (p @ ''.'' @ sg')"
  proof
    assume "CHR ''.'' \<notin> set p"
    then have "tokenPayload (p @ ''.'' @ sg) = tokenPayload (p @ ''.'' @ sg')"
      using tokenPayload_ignores_signature [of p] by simp
    then show "decodeToken (p @ ''.'' @ sg) = decodeToken (p @ ''.'' @ sg')"
      by (simp add: decodeToken_def)
  qed
  have dec: "decodeToken (encodePayload payload @ ''.'' @ sg) = Inr (Some ?m)"
    if "length payload = 34"
    using that decodeToken_payload [OF tokenPayload_encode [of payload sg]] by simp
  have flags: "fst (verify cfg ev st img) = Inr out \<longrightarrow>
      (\<exists>data. ?post = Inr data \<and>
         is_authentic out = ((case data of None \<Rightarrow> None | Some d \<Rightarrow> res_is_authentic d) = Some True) \<and>
         confidence_score out =
           (case (case data of None \<Rightarrow> None | Some d \<Rightarrow> res_confidence_score d) of
              None \<Rightarrow> 0 | Some c \<Rightarrow> c) \<and>
         (case (case data of None \<Rightarrow> None | Some d \<Rightarrow> res_token d) of
            None \<Rightarrow> decoded_meta out = None
          | Some t \<Rightarrow> if t = [] then decoded_meta out = None
                      else decodeToken t = Inr (decoded_meta out)))"
  proof
    assume ok: "fst (verify cfg ev st img) = Inr out"
    show "\<exists>data. ?post = Inr data \<and>
         is_authentic out = ((case data of None \<Rightarrow> None | Some d \<Rightarrow> res_is_authentic d) = Some True) \<and>
         confidence_score out =
           (case (case data of None \<Rightarrow> None | Some d \<Rightarrow> res_confidence_score d) of
              None \<Rightarrow> 0 | Some c \<Rightarrow> c) \<and>
         (case (case data of None \<Rightarrow> None | Some d \<Rightarrow> res_token d) of
            None \<Rightarrow> decoded_meta out = None
          | Some t \<Rightarrow> if t = [] then decoded_meta out = None
                      else decodeToken t = Inr (decoded_meta out))"
    proof (cases ?post)
      case (Inl e)
      then have "fst (verify cfg ev st img) = Inl e" by (simp add: verify_def)
      with ok show ?thesis by simp
    next
      case (Inr data)
      show ?thesis
      proof (cases "insert_rejects ev")
        case (Some e)
        with verify_result [OF Inr, of st] have "fst (verify cfg ev st img) = Inl e"
          by (simp add: Let_def)
        with ok show ?thesis by simp
      next
        case None
        let ?tok = "case data of None \<Rightarrow> None | Some d \<Rightarrow> res_token d"
        from ok verify_result [OF Inr, of st] None
        have out: "out = \<lparr> is_authentic =
              ((case data of None \<Rightarrow> None | Some d \<Rightarrow> res_is_authentic d) = Some True),
            confidence_score =
              (case (case data of None \<Rightarrow> None | Some d \<Rightarrow> res_confidence_score d) of
                 None \<Rightarrow> 0 | Some c \<Rightarrow> c),
            decoded_meta = (case ?tok of None \<Rightarrow> None
                  | Some t \<Rightarrow> if t = [] then None else projr (decodeToken t)) \<rparr>"
          by (simp add: Let_def)
        have meta: "case ?tok of
            None \<Rightarrow> decoded_meta out = None
          | Some t \<Rightarrow> if t = [] then decoded_meta out = None
                      else decodeToken t = Inr (decoded_meta out)"
        proof (cases ?tok)
          case None
          then show ?thesis by (simp add: out)
        next
          case (Some t)
          obtain r where r: "decodeToken t = Inr r" using decodeToken_total by blast
          with Some show ?thesis by (simp add: out)
        qed
        from Inr out meta show ?thesis by (intro exI [of _ data]) simp
      qed
    qed
  qed
  have tampered: "length payload = 34 \<and> ?post = Inr (Some d) \<and>
    res_token d = Some (encodePayload payload @ ''.'' @ sg) \<and> insert_rejects ev = None \<longrightarrow>
      fst (verify cfg ev st img)
        = Inr \<lparr> is_authentic = (res_is_authentic d = Some True),
                confidence_score = (case res_confidence_score d of None \<Rightarrow> 0 | Some c \<Rightarrow> c),
                decoded_meta = Some ?m \<rparr>"
  proof
    assume h: "length payload = 34 \<and> ?post = Inr (Some d) \<and>
      res_token d = Some (encodePayload payload @ ''.'' @ sg) \<and> insert_rejects ev = None"
    then have post: "?post = Inr (Some d)" by blast
    from h have d: "decodeToken (encodePayload payload @ ''.'' @ sg) = Inr (Some ?m)"
      using dec by blast
    show "fst (verify cfg ev st img)
        = Inr \<lparr> is_authentic = (res_is_authentic d = Some True),
                confidence_score = (case res_confidence_score d of None \<Rightarrow> 0 | Some c \<Rightarrow> c),
                decoded_meta = Some ?m \<rparr>"
      unfolding verify_result [OF post] using h d by (simp add: Let_def)
  qed
  from dec have dec': "length payload = 34 \<longrightarrow>
      decodeToken (encodePayload payload @ ''.'' @ sg) = Inr (Some ?m)"
    by blast
  from same dec' flags tampered show ?thesis by (intro conjI)
qed

theorem signature_not_checked_witness:
  "CHR ''.'' \<notin> set ''AYvP5WgAobLD1BI0VniQq83vABEiM0RVZneImaq7zN3u_w'' \<and>
   decodeToken (''AYvP5WgAobLD1BI0VniQq83vABEiM0RVZneImaq7zN3u_w'' @ ''.'' @ ''DEADBEEFDEADBEEFDEADBEEFDEADBEEF'')
     = decodeToken (''AYvP5WgAobLD1BI0VniQq83vABEiM0RVZneImaq7zN3u_w'' @ ''.'' @ ''00000000000000000000000000000000'') \<and>
   length sample_payload = 34 \<and>
   decodeToken (encodePayload sample_payload @ ''.'' @ ''DEADBEEFDEADBEEFDEADBEEFDEADBEEF'')
     = Inr (Some sample_input) \<and>
   res_token (sample_response
        (Some ''AYvP5WgAobLD1BI0VniQq83vABEiM0RVZneImaq7zN3u_w.DEADBEEFDEADBEEFDEADBEEFDEADBEEF''))
     = Some (encodePayload sample_payload @ ''.'' @ ''DEADBEEFDEADBEEFDEADBEEFDEADBEEF'') \<and>
   fst (verify sample_config
     (sample_env (Inr (Some (sample_response
        (Some ''AYvP5WgAobLD1BI0VniQq83vABEiM0RVZneImaq7zN3u_w.DEADBEEFDEADBEEFDEADBEEFDEADBEEF''))))
        None)
     empty_store ''aW1hZ2U='')
     = Inr \<lparr> is_authentic = True, confidence_score = 17 / 20, decoded_meta = Some sample_input \<rparr>"
proof -
  let ?p = "''AYvP5WgAobLD1BI0VniQq83vABEiM0RVZneImaq7zN3u_w''"
  let ?sg = "''DEADBEEFDEADBEEFDEADBEEFDEADBEEF''"
  let ?tok = "''AYvP5WgAobLD1BI0VniQq83vABEiM0RVZneImaq7zN3u_w.DEADBEEFDEADBEEFDEADBEEFDEADBEEF''"
  let ?d = "sample_response (Some ?tok)"
  let ?ev = "sample_env (Inr (Some ?d)) None"
  let ?out = "\<lparr> is_authentic = True, confidence_score = 17 / 20, decoded_meta = Some sample_input \<rparr>"
  note t = signature_not_checked [where p = ?p and sg = ?sg
      and sg' = "''00000000000000000000000000000000''" and payload = sample_payload
      and cfg = sample_config and ev = ?ev and st = empty_store and img = "''aW1hZ2U=''"
      and out = ?out and d = ?d]
  have nodot: "CHR ''.'' \<notin> set ?p" by simp
  have len: "length sample_payload = 34" by (simp add: sample_payload_def)
  have tok: "res_token ?d = Some (encodePayload sample_payload @ ''.'' @ ?sg)"
    by (simp add: sample_response_def encodePayload_sample)
  have hyp: "length sample_payload = 34 \<and>
      axios_post ?ev (pythonServiceUrl sample_config @ ''/verify-protected-qr'')
        (VerifyBody ''aW1hZ2U='') (requestTimeoutMs sample_config) = Inr (Some ?d) \<and>
      res_token ?d = Some (encodePayload sample_payload @ ''.'' @ ?sg) \<and>
      insert_rejects ?ev = None"
    using len tok by (simp add: sample_env_def)
  from t nodot have 1: "decodeToken (?p @ ''.'' @ ?sg)
     = decodeToken (?p @ ''.'' @ ''00000000000000000000000000000000'')"
    by blast
  from t len have 2: "decodeToken (encodePayload sample_payload @ ''.'' @ ?sg)
     = Inr (Some sample_input)"
    unfolding sample_fields by blast
  from t hyp have "fst (verify sample_config ?ev empty_store ''aW1hZ2U='')
        = Inr \<lparr> is_authentic = (res_is_authentic ?d = Some True),
                confidence_score = (case res_confidence_score ?d of None \<Rightarrow> 0 | Some c \<Rightarrow> c),
                decoded_meta = Some sample_input \<rparr>"
    unfolding sample_fields by blast
  then have 3: "fst (verify sample_config ?ev empty_store ''aW1hZ2U='') = Inr ?out"
    by (simp add: sample_response_def)
  from nodot 1 len 2 tok 3 show ?thesis by (intro conjI)
qed

subsection \<open>What \<open>generate\<close> returns and stores\<close>

lemma generate_result:
  assumes "validateInput input = Inr u" and "packPayload (date_now ev) input = Inr p"
  shows "generate cfg ev st input =
     (case axios_post ev (pythonServiceUrl cfg @ ''/generate-protected-qr'')
             (GenerateBody (makeToken (hmacSecret cfg) p) 600 1) (requestTimeoutMs cfg) of
        Inl e \<Rightarrow> (Inl e, st)
      | Inr data \<Rightarrow>
          (case insert_rejects ev of
             Some e \<Rightarrow> (Inl e, st)
           | None \<Rightarrow>
               (Inr \<lparr> token = makeToken (hmacSecret cfg) p,
                      qr_image_base64 = (case data of None \<Rightarrow> None | Some d \<Rightarrow> res_qr_image_base64 d) \<rparr>,
                st\<lparr> qr_audit := qr_audit st @
                  [\<lparr> audit_token = makeToken (hmacSecret cfg) p,
                     audit_data_hash = data_hash input,
                     audit_metadata_series = metadata_series input,
                     audit_metadata_issued = metadata_issued input,
                     audit_metadata_expiry = metadata_expiry input,
                     audit_created_at = new_date ev \<rparr>] \<rparr>)))"
  unfolding generate_def assms Let_def insertOne_def
  by (simp split: sum.split option.split)

lemma generate_Inr:
  assumes "generate cfg ev st input = (Inr out, st')"
  shows "validateInput input = Inr () \<and>
     (\<exists>p data. packPayload (date_now ev) input = Inr p \<and>
        axios_post ev (pythonServiceUrl cfg @ ''/generate-protected-qr'')
             (GenerateBody (makeToken (hmacSecret cfg) p) 600 1) (requestTimeoutMs cfg) = Inr data \<and>
        insert_rejects ev = None \<and>
        out = \<lparr> token = makeToken (hmacSecret cfg) p,
                qr_image_base64 = (case data of None \<Rightarrow> None | Some d \<Rightarrow> res_qr_image_base64 d) \<rparr> \<and>
        st' = st\<lparr> qr_audit := qr_audit st @
                  [\<lparr> audit_token = makeToken (hmacSecret cfg) p,
                     audit_data_hash = data_hash input,
                     audit_metadata_series = metadata_series input,
                     audit_metadata_issued = metadata_issued input,
                     audit_metadata_expiry = metadata_expiry input,
                     audit_created_at = new_date ev \<rparr>] \<rparr>)"
proof (cases "validateInput input")
  case (Inl e)
  with assms show ?thesis by (simp add: generate_def)
next
  case v: (Inr u)
  show ?thesis
  proof (cases "packPayload (date_now ev) input")
    case (Inl e)
    with assms v show ?thesis by (simp add: generate_def)
  next
    case p: (Inr p)
    from assms show ?thesis
      unfolding generate_result [OF v p] using v p
      by (auto split: sum.splits option.splits)
  qed
qed

lemma validateInput_sample: "validateInput sample_input = Inr ()"
  by code_simp

lemma packPayload_sample: "packPayload 1700000000000 sample_input = Inr sample_payload"
  by code_simp

lemma packPayload_sample_env:
  "packPayload (date_now (sample_env reply rej)) sample_input = Inr sample_payload"
  by (simp add: sample_env_def packPayload_sample)

lemma generateQrSchema_sample: "generateQrSchema sample_body = Some sample_input"
  by (simp add: generateQrSchema_def sample_body_def sample_input_def)

lemma generateHandler_error:
  "generateQrSchema body = Some input \<Longrightarrow> fst (generate cfg ev st input) = Inl e \<Longrightarrow>
   response (generateHandler cfg ev st lg body) = fst (errorHandler e lg) \<and>
   log_after (generateHandler cfg ev st lg body) = snd (errorHandler e lg)"
  by (cases "generate cfg ev st input") (auto simp: generateHandler_def split: prod.splits)

lemma generateHandler_ok:
  "generateQrSchema body = Some input \<Longrightarrow> generate cfg ev st input = (Inr out, st') \<Longrightarrow>
   generateHandler cfg ev st lg body
     = \<lparr> response = Respond200 out, store_after = st', log_after = lg \<rparr>"
  by (simp add: generateHandler_def)

lemma generate_sample_store_down:
  "generate sample_config
      (sample_env (Inr (Some (sample_response None))) (Some (StoreError ''connection closed'')))
      empty_store sample_input
   = (Inl (StoreError ''connection closed''), empty_store)"
  unfolding generate_result [OF validateInput_sample packPayload_sample_env]
  by (simp add: sample_env_def)

lemma generate_sample:
  "generate sample_config (sample_env (Inr (Some (sample_response None))) None)
      empty_store sample_input
   = (Inr \<lparr> token = makeToken ''secret'' sample_payload, qr_image_base64 = Some ''iVBORw0'' \<rparr>,
      empty_store\<lparr> qr_audit :=
        [\<lparr> audit_token = makeToken ''secret'' sample_payload,
           audit_data_hash = ''a1b2c3d4'',
           audit_metadata_series = ''1234567890abcdef'',
           audit_metadata_issued = ''0011223344556677'',
           audit_metadata_expiry = ''8899aabbccddeeff'',
           audit_created_at = 1700000000005 \<rparr>] \<rparr>)"
  unfolding generate_result [OF validateInput_sample packPayload_sample_env]
  by (simp add: sample_env_def sample_config_def sample_response_def sample_input_def
      empty_store_def)

subsection \<open>Verification records\<close>

text \<open>
  Claim C2, as stated, fails: when the detection call fails, \<open>verify\<close> rejects with
  that error before it reaches \<open>insertOne\<close>, and no verification record is written.
\<close>

theorem verify_detection_fails_counterexample:
  "verify sample_config (sample_env (Inl (UpstreamError ''timeout of 10000ms exceeded'')) None)
      empty_store ''aW1hZ2U=''
   = (Inl (UpstreamError ''timeout of 10000ms exceeded''), empty_store) \<and>
   qr_verify_logs empty_store = []"
  by (simp add: verify_def sample_env_def empty_store_def)

text \<open>
  Claim C2, amended. For every call of \<open>verify\<close> whose detection call returns, with
  or without a token, and whose insert the database accepts, exactly one verification
  record is appended: the token or null, the score (0 when absent) and the authenticity
  flag (false when absent). When the detection call fails, \<open>verify\<close> fails with that
  error and the store is as it was.
\<close>

theorem verify_appends_record:
  "(axios_post ev (pythonServiceUrl cfg @ ''/verify-protected-qr'') (VerifyBody img)
        (requestTimeoutMs cfg) = Inr data \<and> insert_rejects ev = None \<longrightarrow>
      snd (verify cfg ev st img) =
        st\<lparr> qr_verify_logs := qr_verify_logs st @
          [\<lparr> log_token = (case data of None \<Rightarrow> None | Some d \<Rightarrow> res_token d),
             log_confidence_score =
               (case (case data of None \<Rightarrow> None | Some d \<Rightarrow> res_confidence_score d) of
                  None \<Rightarrow> 0 | Some c \<Rightarrow> c),
             log_is_authentic =
               ((case data of None \<Rightarrow> None | Some d \<Rightarrow> res_is_authentic d) = Some True),
             log_created_at = new_date ev \<rparr>] \<rparr>) \<and>
   (axios_post ev (pythonServiceUrl cfg @ ''/verify-protected-qr'') (VerifyBody img)
        (requestTimeoutMs cfg) = Inl e \<longrightarrow>
      verify cfg ev st img = (Inl e, st))"
proof (intro conjI impI)
  assume "axios_post ev (pythonServiceUrl cfg @ ''/verify-protected-qr'') (VerifyBody img)
        (requestTimeoutMs cfg) = Inr data \<and> insert_rejects ev = None"
  then show "snd (verify cfg ev st img) =
        st\<lparr> qr_verify_logs := qr_verify_logs st @
          [\<lparr> log_token = (case data of None \<Rightarrow> None | Some d \<Rightarrow> res_token d),
             log_confidence_score =
               (case (case data of None \<Rightarrow> None | Some d \<Rightarrow> res_confidence_score d) of
                  None \<Rightarrow> 0 | Some c \<Rightarrow> c),
             log_is_authentic =
               ((case data of None \<Rightarrow> None | Some d \<Rightarrow> res_is_authentic d) = Some True),
             log_created_at = new_date ev \<rparr>] \<rparr>"
    using verify_result [of ev cfg img data st] by (simp add: Let_def)
next
  assume "axios_post ev (pythonServiceUrl cfg @ ''/verify-protected-qr'') (VerifyBody img)
        (requestTimeoutMs cfg) = Inl e"
  then show "verify cfg ev st img = (Inl e, st)"
    by (simp add: verify_def)
qed

theorem verify_appends_record_witness:
  "snd (verify sample_config (sample_env (Inr (Some (sample_response None))) None)
          empty_store ''aW1hZ2U='')
     = empty_store\<lparr> qr_verify_logs :=
         [\<lparr> log_token = None, log_confidence_score = 17 / 20, log_is_authentic = True,
            log_created_at = 1700000000005 \<rparr>] \<rparr> \<and>
   snd (verify sample_config (sample_env (Inr None) None) empty_store ''aW1hZ2U='')
     = empty_store\<lparr> qr_verify_logs :=
         [\<lparr> log_token = None, log_confidence_score = 0, log_is_authentic = False,
            log_created_at = 1700000000005 \<rparr>] \<rparr> \<and>
   verify sample_config (sample_env (Inl (UpstreamError ''timeout of 10000ms exceeded'')) None)
      empty_store ''aW1hZ2U=''
     = (Inl (UpstreamError ''timeout of 10000ms exceeded''), empty_store)"
proof -
  let ?img = "''aW1hZ2U=''"
  let ?e = "UpstreamError ''timeout of 10000ms exceeded''"
  note a = verify_appends_record [where ev = "sample_env (Inr (Some (sample_response None))) None"
      and cfg = sample_config and img = ?img and data = "Some (sample_response None)"
      and st = empty_store and e = ?e]
  note b = verify_appends_record [where ev = "sample_env (Inr None) None"
      and cfg = sample_config and img = ?img and data = None and st = empty_store and e = ?e]
  note c = verify_appends_record [where ev = "sample_env (Inl ?e) None"
      and cfg = sample_config and img = ?img and data = None and st = empty_store and e = ?e]
  show ?thesis
    using a b c by (simp add: sample_env_def sample_response_def empty_store_def)
qed

subsection \<open>The audit write\<close>

text \<open>
  Claim C3, as stated, fails: \<open>generate\<close> awaits \<open>insertOne\<close> outside any
  \<open>try\<close>, so when the render succeeded and the database rejects the insert, the
  call rejects with the database's error, and the request is answered with status 500
  instead of the token/image pair.
\<close>

theorem audit_write_fails_counterexample:
  "axios_post (sample_env (Inr (Some (sample_response None))) (Some (StoreError ''connection closed'')))
      (pythonServiceUrl sample_config @ ''/generate-protected-qr'')
      (GenerateBody (makeToken (hmacSecret sample_config) sample_payload) 600 1)
      (requestTimeoutMs sample_config)
     = Inr (Some (sample_response None)) \<and>
   generate sample_config
      (sample_env (Inr (Some (sample_response None))) (Some (StoreError ''connection closed'')))
      empty_store sample_input
     = (Inl (StoreError ''connection closed''), empty_store) \<and>
   response (generateHandler sample_config
      (sample_env (Inr (Some (sample_response None))) (Some (StoreError ''connection closed'')))
      empty_store [] sample_body)
     = RespondError 500 (StoreError ''connection closed'')"
proof -
  let ?down = "sample_env (Inr (Some (sample_response None))) (Some (StoreError ''connection closed''))"
  have g: "fst (generate sample_config ?down empty_store sample_input)
      = Inl (StoreError ''connection closed'')"
    by (simp add: generate_sample_store_down)
  have "response (generateHandler sample_config ?down empty_store [] sample_body)
      = RespondError 500 (StoreError ''connection closed'')"
    using generateHandler_error [OF generateQrSchema_sample g, of "[]"]
    by (simp add: errorHandler_def)
  moreover have "axios_post ?down (pythonServiceUrl sample_config @ ''/generate-protected-qr'')
      (GenerateBody (makeToken (hmacSecret sample_config) sample_payload) 600 1)
      (requestTimeoutMs sample_config) = Inr (Some (sample_response None))"
    by (simp add: sample_env_def)
  ultimately show ?thesis
    by (simp add: generate_sample_store_down)
qed

text \<open>
  Claim C3, amended. When the render succeeds and the audit write fails, the error is
  logged: \<open>generate\<close> rejects with the store's error, and the error handler logs it
  (\<open>logger.error\<close>, or a warning for an \<open>HttpException\<close>) and answers the request
  with that error (status 500, or the exception's status); the token/image pair is not
  returned to the caller. The audit write is awaited before \<open>generate\<close> returns:
  whenever a pair is returned, the store already holds its audit record (the token with
  the four input fields), appended last, and the request is answered with the pair and
  nothing is logged.
\<close>

theorem audit_write_awaited:
  "(validateInput input = Inr () \<and> packPayload (date_now ev) input = Inr p \<and>
    axios_post ev (pythonServiceUrl cfg @ ''/generate-protected-qr'')
        (GenerateBody (makeToken (hmacSecret cfg) p) 600 1) (requestTimeoutMs cfg) = Inr data \<and>
    insert_rejects ev = Some e \<longrightarrow>
      fst (generate cfg ev st input) = Inl e \<and>
      (generateQrSchema body = Some input \<longrightarrow>
         response (generateHandler cfg ev st lg body)
           = RespondError (case e of HttpException status message \<Rightarrow> status | _ \<Rightarrow> 500) e \<and>
         log_after (generateHandler cfg ev st lg body)
           = lg @ [case e of HttpException status message \<Rightarrow> LogWarn message status
                   | _ \<Rightarrow> LogError e])) \<and>
   (generate cfg ev st input = (Inr out, st') \<longrightarrow>
      st' = st\<lparr> qr_audit := qr_audit st @
              [\<lparr> audit_token = token out,
                 audit_data_hash = data_hash input,
                 audit_metadata_series = metadata_series input,
                 audit_metadata_issued = metadata_issued input,
                 audit_metadata_expiry = metadata_expiry input,
                 audit_created_at = new_date ev \<rparr>] \<rparr> \<and>
      (generateQrSchema body = Some input \<longrightarrow>
         generateHandler cfg ev st lg body
           = \<lparr> response = Respond200 out, store_after = st', log_after = lg \<rparr>))"
proof -
  have fails: "validateInput input = Inr () \<and> packPayload (date_now ev) input = Inr p \<and>
    axios_post ev (pythonServiceUrl cfg @ ''/generate-protected-qr'')
        (GenerateBody (makeToken (hmacSecret cfg) p) 600 1) (requestTimeoutMs cfg) = Inr data \<and>
    insert_rejects ev = Some e \<longrightarrow>
      fst (generate cfg ev st input) = Inl e \<and>
      (generateQrSchema body = Some input \<longrightarrow>
         response (generateHandler cfg ev st lg body)
           = RespondError (case e of HttpException status message \<Rightarrow> status | _ \<Rightarrow> 500) e \<and>
         log_after (generateHandler cfg ev st lg body)
           = lg @ [case e of HttpException status message \<Rightarrow> LogWarn message status
                   | _ \<Rightarrow> LogError e])"
  proof (intro impI)
    assume h: "validateInput input = Inr () \<and> packPayload (date_now ev) input = Inr p \<and>
      axios_post ev (pythonServiceUrl cfg @ ''/generate-protected-qr'')
        (GenerateBody (makeToken (hmacSecret cfg) p) 600 1) (requestTimeoutMs cfg) = Inr data \<and>
      insert_rejects ev = Some e"
    then have g: "fst (generate cfg ev st input) = Inl e"
      using generate_result [of input "()" ev p cfg st] by simp
    have eh: "errorHandler e lg =
        (RespondError (case e of HttpException status message \<Rightarrow> status | _ \<Rightarrow> 500) e,
         lg @ [case e of HttpException status message \<Rightarrow> LogWarn message status
               | _ \<Rightarrow> LogError e])"
      by (cases e) (simp_all add: errorHandler_def)
    show "fst (generate cfg ev st input) = Inl e \<and>
      (generateQrSchema body = Some input \<longrightarrow>
         response (generateHandler cfg ev st lg body)
           = RespondError (case e of HttpException status message \<Rightarrow> status | _ \<Rightarrow> 500) e \<and>
         log_after (generateHandler cfg ev st lg body)
           = lg @ [case e of HttpException status message \<Rightarrow> LogWarn message status
                   | _ \<Rightarrow> LogError e])"
      using g generateHandler_error [OF _ g, of body lg] by (simp add: eh)
  qed
  have returns: "generate cfg ev st input = (Inr out, st') \<longrightarrow>
      st' = st\<lparr> qr_audit := qr_audit st @
              [\<lparr> audit_token = token out,
                 audit_data_hash = data_hash input,
                 audit_metadata_series = metadata_series input,
                 audit_metadata_issued = metadata_issued input,
                 audit_metadata_expiry = metadata_expiry input,
                 audit_created_at = new_date ev \<rparr>] \<rparr> \<and>
      (generateQrSchema body = Some input \<longrightarrow>
         generateHandler cfg ev st lg body
           = \<lparr> response = Respond200 out, store_after = st', log_after = lg \<rparr>)"
  proof (intro impI)
    assume r: "generate cfg ev st input = (Inr out, st')"
    from generate_Inr [OF r]
    have "st' = st\<lparr> qr_audit := qr_audit st @
              [\<lparr> audit_token = token out,
                 audit_data_hash = data_hash input,
                 audit_metadata_series = metadata_series input,
                 audit_metadata_issued = metadata_issued input,
                 audit_metadata_expiry = metadata_expiry input,
                 audit_created_at = new_date ev \<rparr>] \<rparr>"
      by auto
    then show "st' = st\<lparr> qr_audit := qr_audit st @
              [\<lparr> audit_token = token out,
                 audit_data_hash = data_hash input,
                 audit_metadata_series = metadata_series input,
                 audit_metadata_issued = metadata_issued input,
                 audit_metadata_expiry = metadata_expiry input,
                 audit_created_at = new_date ev \<rparr>] \<rparr> \<and>
      (generateQrSchema body = Some input \<longrightarrow>
         generateHandler cfg ev st lg body
           = \<lparr> response = Respond200 out, store_after = st', log_after = lg \<rparr>)"
      using generateHandler_ok [OF _ r, of body lg] by blast
  qed
  from fails returns show ?thesis by (rule conjI)
qed

theorem audit_write_awaited_witness:
  "generate sample_config
      (sample_env (Inr (Some (sample_response None))) (Some (StoreError ''connection closed'')))
      empty_store sample_input
     = (Inl (StoreError ''connection closed''), empty_store) \<and>
   response (generateHandler sample_config
      (sample_env (Inr (Some (sample_response None))) (Some (StoreError ''connection closed'')))
      empty_store [] sample_body)
     = RespondError 500 (StoreError ''connection closed'') \<and>
   log_after (generateHandler sample_config
      (sample_env (Inr (Some (sample_response None))) (Some (StoreError ''connection closed'')))
      empty_store [] sample_body)
     = [LogError (StoreError ''connection closed'')] \<and>
   generate sample_config (sample_env (Inr (Some (sample_response None))) None)
      empty_store sample_input
   = (Inr \<lparr> token = makeToken ''secret'' sample_payload, qr_image_base64 = Some ''iVBORw0'' \<rparr>,
      empty_store\<lparr> qr_audit :=
        [\<lparr> audit_token = makeToken ''secret'' sample_payload,
           audit_data_hash = ''a1b2c3d4'',
           audit_metadata_series = ''1234567890abcdef'',
           audit_metadata_issued = ''0011223344556677'',
           audit_metadata_expiry = ''8899aabbccddeeff'',
           audit_created_at = 1700000000005 \<rparr>] \<rparr>) \<and>
   generateHandler sample_config (sample_env (Inr (Some (sample_response None))) None)
      empty_store [] sample_body
   = \<lparr> response = Respond200
         \<lparr> token = makeToken ''secret'' sample_payload, qr_image_base64 = Some ''iVBORw0'' \<rparr>,
       store_after = empty_store\<lparr> qr_audit :=
        [\<lparr> audit_token = makeToken ''secret'' sample_payload,
           audit_data_hash = ''a1b2c3d4'',
           audit_metadata_series = ''1234567890abcdef'',
           audit_metadata_issued = ''0011223344556677'',
           audit_metadata_expiry = ''8899aabbccddeeff'',
           audit_created_at = 1700000000005 \<rparr>] \<rparr>,
       log_after = [] \<rparr>"
proof -
  let ?down = "sample_env (Inr (Some (sample_response None))) (Some (StoreError ''connection closed''))"
  let ?up = "sample_env (Inr (Some (sample_response None))) None"
  let ?out = "\<lparr> token = makeToken ''secret'' sample_payload, qr_image_base64 = Some ''iVBORw0'' \<rparr>"
  let ?st = "empty_store\<lparr> qr_audit :=
        [\<lparr> audit_token = makeToken ''secret'' sample_payload,
           audit_data_hash = ''a1b2c3d4'',
           audit_metadata_series = ''1234567890abcdef'',
           audit_metadata_issued = ''0011223344556677'',
           audit_metadata_expiry = ''8899aabbccddeeff'',
           audit_created_at = 1700000000005 \<rparr>] \<rparr>"
  have hyp: "validateInput sample_input = Inr () \<and>
      packPayload (date_now ?down) sample_input = Inr sample_payload \<and>
      axios_post ?down (pythonServiceUrl sample_config @ ''/generate-protected-qr'')
        (GenerateBody (makeToken (hmacSecret sample_config) sample_payload) 600 1)
        (requestTimeoutMs sample_config) = Inr (Some (sample_response None)) \<and>
      insert_rejects ?down = Some (StoreError ''connection closed'')"
    by (simp add: validateInput_sample packPayload_sample_env) (simp add: sample_env_def)
  from audit_write_awaited [where input = sample_input and ev = ?down and p = sample_payload
      and cfg = sample_config and data = "Some (sample_response None)"
      and e = "StoreError ''connection closed''" and st = empty_store
      and body = sample_body and lg = "[]"] hyp generateQrSchema_sample
  have 1: "response (generateHandler sample_config ?down empty_store [] sample_body)
        = RespondError 500 (StoreError ''connection closed'')"
    and 2: "log_after (generateHandler sample_config ?down empty_store [] sample_body)
        = [LogError (StoreError ''connection closed'')]"
    by simp_all
  have run: "generate sample_config ?up empty_store sample_input = (Inr ?out, ?st)"
    by (simp add: generate_sample)
  from audit_write_awaited [where input = sample_input and ev = ?up
      and cfg = sample_config and st = empty_store and out = ?out and st' = ?st
      and body = sample_body and lg = "[]"] run generateQrSchema_sample
  have 3: "generateHandler sample_config ?up empty_store [] sample_body
      = \<lparr> response = Respond200 ?out, store_after = ?st, log_after = [] \<rparr>"
    by blast
  from 1 2 3 run generate_sample_store_down show ?thesis by simp
qed

subsection \<open>Input validation\<close>

lemma generate_invalid:
  "validateInput input = Inl e \<Longrightarrow> generate cfg ev st input = (Inl e, st)"
  by (simp add: generate_def)

lemma assertHexLength_Inl_iff:
  "assertHexLength label v n = Inl e \<longleftrightarrow>
     (\<not> test_hex v \<and> e = HttpException 400 (label @ '' must be hex string'')) \<or>
     (test_hex v \<and> length v \<noteq> n \<and>
        e = HttpException 400 (label @ '' must be '' @ show_nat n @ '' hex chars''))"
  by (auto simp: assertHexLength_def)

lemma assertHexLength_not_hex_8: "assertHexLength ''data_hash'' ''zzzzzzzz'' 8
    = Inl (HttpException 400 ''data_hash must be hex string'')"
  by code_simp

lemma assertHexLength_not_hex_16: "assertHexLength ''metadata_series'' ''zzzzzzzzzzzzzzzz'' 16
    = Inl (HttpException 400 ''metadata_series must be hex string'')"
  by code_simp

lemma assertHexLength_short: "assertHexLength ''data_hash'' ''a1b2c3'' 8
    = Inl (HttpException 400 ''data_hash must be 8 hex chars'')"
  by code_simp

lemma assertHexLength_sample: "assertHexLength ''data_hash'' ''a1b2c3d4'' 8 = Inr ()"
  by code_simp

lemma assertHexLength_empty: "assertHexLength ''metadata_expiry'' [] 16
    = Inl (HttpException 400 ''metadata_expiry must be hex string'')"
  by code_simp

text \<open>
  Claim C4, as stated, fails: \<open>assertHexLength\<close> throws, so \<open>generate\<close> stops at
  the first field that fails. With two offending fields, the failure names the first
  one only.
\<close>

theorem validation_fail_fast_counterexample:
  "assertHexLength ''metadata_series'' ''zzzzzzzzzzzzzzzz'' 16
     = Inl (HttpException 400 ''metadata_series must be hex string'') \<and>
   generate sample_config (sample_env (Inr (Some (sample_response None))) None) empty_store
      (sample_input\<lparr> data_hash := ''zzzzzzzz'', metadata_series := ''zzzzzzzzzzzzzzzz'' \<rparr>)
     = (Inl (HttpException 400 ''data_hash must be hex string''), empty_store)"
  by (simp add: assertHexLength_not_hex_16 generate_invalid validateInput_def assertHexLength_not_hex_8)

text \<open>
  Claim C4, amended. For every input of \<open>generate\<close> with one or more invalid fields,
  the call fails with a 400 validation error that names the first offending field, in
  the order \<open>data_hash\<close>, \<open>metadata_series\<close>, \<open>metadata_issued\<close>,
  \<open>metadata_expiry\<close>: "must be hex string" when the field is empty or not hex-only,
  else "must be N hex chars". Violations of later fields are not reported. No token
  is produced and the store is as it was.
\<close>

theorem validation_names_first_field:
  "(assertHexLength ''data_hash'' (data_hash input) 8 = Inl e \<longrightarrow>
      generate cfg ev st input = (Inl e, st)) \<and>
   (assertHexLength ''data_hash'' (data_hash input) 8 = Inr () \<and>
    assertHexLength ''metadata_series'' (metadata_series input) 16 = Inl e \<longrightarrow>
      generate cfg ev st input = (Inl e, st)) \<and>
   (assertHexLength ''data_hash'' (data_hash input) 8 = Inr () \<and>
    assertHexLength ''metadata_series'' (metadata_series input) 16 = Inr () \<and>
    assertHexLength ''metadata_issued'' (metadata_issued input) 16 = Inl e \<longrightarrow>
      generate cfg ev st input = (Inl e, st)) \<and>
   (assertHexLength ''data_hash'' (data_hash input) 8 = Inr () \<and>
    assertHexLength ''metadata_series'' (metadata_series input) 16 = Inr () \<and>
    assertHexLength ''metadata_issued'' (metadata_issued input) 16 = Inr () \<and>
    assertHexLength ''metadata_expiry'' (metadata_expiry input) 16 = Inl e \<longrightarrow>
      generate cfg ev st input = (Inl e, st)) \<and>
   (assertHexLength label v n = Inl e \<longleftrightarrow>
      (\<not> test_hex v \<and> e = HttpException 400 (label @ '' must be hex string'')) \<or>
      (test_hex v \<and> length v \<noteq> n \<and>
         e = HttpException 400 (label @ '' must be '' @ show_nat n @ '' hex chars''))) \<and>
   (\<not> ((test_hex (data_hash input) \<and> length (data_hash input) = 8) \<and>
        (test_hex (metadata_series input) \<and> length (metadata_series input) = 16) \<and>
        (test_hex (metadata_issued input) \<and> length (metadata_issued input) = 16) \<and>
        (test_hex (metadata_expiry input) \<and> length (metadata_expiry input) = 16)) \<longrightarrow>
      (\<exists>msg. generate cfg ev st input = (Inl (HttpException 400 msg), st)))"
proof (intro conjI impI)
  assume "assertHexLength ''data_hash'' (data_hash input) 8 = Inl e"
  then show "generate cfg ev st input = (Inl e, st)"
    by (simp add: generate_invalid validateInput_def)
next
  assume "assertHexLength ''data_hash'' (data_hash input) 8 = Inr () \<and>
    assertHexLength ''metadata_series'' (metadata_series input) 16 = Inl e"
  then show "generate cfg ev st input = (Inl e, st)"
    by (simp add: generate_invalid validateInput_def)
next
  assume "assertHexLength ''data_hash'' (data_hash input) 8 = Inr () \<and>
    assertHexLength ''metadata_series'' (metadata_series input) 16 = Inr () \<and>
    assertHexLength ''metadata_issued'' (metadata_issued input) 16 = Inl e"
  then show "generate cfg ev st input = (Inl e, st)"
    by (simp add: generate_invalid validateInput_def)
next
  assume "assertHexLength ''data_hash'' (data_hash input) 8 = Inr () \<and>
    assertHexLength ''metadata_series'' (metadata_series input) 16 = Inr () \<and>
    assertHexLength ''metadata_issued'' (metadata_issued input) 16 = Inr () \<and>
    assertHexLength ''metadata_expiry'' (metadata_expiry input) 16 = Inl e"
  then show "generate cfg ev st input = (Inl e, st)"
    by (simp add: generate_invalid validateInput_def)
next
  show "assertHexLength label v n = Inl e \<longleftrightarrow>
      (\<not> test_hex v \<and> e = HttpException 400 (label @ '' must be hex string'')) \<or>
      (test_hex v \<and> length v \<noteq> n \<and>
         e = HttpException 400 (label @ '' must be '' @ show_nat n @ '' hex chars''))"
    by (rule assertHexLength_Inl_iff)
next
  assume bad: "\<not> ((test_hex (data_hash input) \<and> length (data_hash input) = 8) \<and>
        (test_hex (metadata_series input) \<and> length (metadata_series input) = 16) \<and>
        (test_hex (metadata_issued input) \<and> length (metadata_issued input) = 16) \<and>
        (test_hex (metadata_expiry input) \<and> length (metadata_expiry input) = 16))"
  have "\<exists>msg. validateInput input = Inl (HttpException 400 msg)"
  proof (cases "validateInput input")
    case (Inl e)
    then show ?thesis
      by (auto simp: validateInput_def assertHexLength_Inl_iff split: sum.splits)
  next
    case (Inr u)
    with bad show ?thesis by (simp add: validateInput_Inr)
  qed
  then show "\<exists>msg. generate cfg ev st input = (Inl (HttpException 400 msg), st)"
    by (auto simp: generate_invalid)
qed

theorem validation_names_first_field_witness:
  "generate sample_config (sample_env (Inr (Some (sample_response None))) None) empty_store
      (sample_input\<lparr> data_hash := ''a1b2c3'' \<rparr>)
     = (Inl (HttpException 400 ''data_hash must be 8 hex chars''), empty_store) \<and>
   generate sample_config (sample_env (Inr (Some (sample_response None))) None) empty_store
      (sample_input\<lparr> metadata_series := ''zzzzzzzzzzzzzzzz'', metadata_expiry := [] \<rparr>)
     = (Inl (HttpException 400 ''metadata_series must be hex string''), empty_store)"
proof -
  let ?ev = "sample_env (Inr (Some (sample_response None))) None"
  let ?e1 = "HttpException 400 ''data_hash must be 8 hex chars''"
  let ?e2 = "HttpException 400 ''metadata_series must be hex string''"
  have a: "assertHexLength ''data_hash'' (data_hash (sample_input\<lparr> data_hash := ''a1b2c3'' \<rparr>)) 8 = Inl ?e1"
    by (simp add: assertHexLength_short)
  have b: "assertHexLength ''data_hash''
        (data_hash (sample_input\<lparr> metadata_series := ''zzzzzzzzzzzzzzzz'', metadata_expiry := [] \<rparr>)) 8 = Inr () \<and>
      assertHexLength ''metadata_series''
        (metadata_series (sample_input\<lparr> metadata_series := ''zzzzzzzzzzzzzzzz'', metadata_expiry := [] \<rparr>)) 16
        = Inl ?e2"
    by (simp add: assertHexLength_not_hex_16 assertHexLength_sample sample_input_def)
  from validation_names_first_field [where input = "sample_input\<lparr> data_hash := ''a1b2c3'' \<rparr>"
      and e = ?e1 and cfg = sample_config and ev = ?ev and st = empty_store] a
  have 1: "generate sample_config ?ev empty_store (sample_input\<lparr> data_hash := ''a1b2c3'' \<rparr>)
     = (Inl ?e1, empty_store)"
    by blast
  from validation_names_first_field
      [where input = "sample_input\<lparr> metadata_series := ''zzzzzzzzzzzzzzzz'', metadata_expiry := [] \<rparr>"
      and e = ?e2 and cfg = sample_config and ev = ?ev and st = empty_store] b
  have 2: "generate sample_config ?ev empty_store
      (sample_input\<lparr> metadata_series := ''zzzzzzzzzzzzzzzz'', metadata_expiry := [] \<rparr>)
     = (Inl ?e2, empty_store)"
    by blast
  from 1 2 show ?thesis by blast
qed

subsection \<open>Round trip\<close>

lemma lower_hex_table:
  "list_all (\<lambda>c. case unhex c of None \<Rightarrow> False | Some n \<Rightarrow> n < 16 \<and> hexdigit n = c)
     ''0123456789abcdef''"
  by code_simp

lemma unhex_lower:
  assumes "c \<in> set ''0123456789abcdef''"
  obtains n where "unhex c = Some n" "n < 16" "hexdigit n = c"
proof -
  from lower_hex_table assms
  have "case unhex c of None \<Rightarrow> False | Some n \<Rightarrow> n < 16 \<and> hexdigit n = c"
    unfolding list_all_iff by blast
  then show ?thesis using that by (cases "unhex c") auto
qed

lemma nibbles_byte:
  fixes h l :: nat
  assumes "h < 16" "l < 16"
  shows "unat (of_nat (16 * h + l) :: byte) div 16 = h"
    and "unat (of_nat (16 * h + l) :: byte) mod 16 = l"
proof -
  have "16 * h + l < 256" using assms by simp
  then have "unat (of_nat (16 * h + l) :: byte) = 16 * h + l"
    by (intro of_nat_inverse [OF refl]) simp
  then show "unat (of_nat (16 * h + l) :: byte) div 16 = h"
    and "unat (of_nat (16 * h + l) :: byte) mod 16 = l"
    using assms by simp_all
qed

lemma to_hex_hex_decode:
  "list_all (\<lambda>c. c \<in> set ''0123456789abcdef'') s \<Longrightarrow> even (length s) \<Longrightarrow>
   to_hex (hex_decode s) = s"
proof (induction s rule: hex_decode.induct)
  case (1 a b rest)
  from "1.prems" have a: "a \<in> set ''0123456789abcdef''" and b: "b \<in> set ''0123456789abcdef''"
    and rest: "list_all (\<lambda>c. c \<in> set ''0123456789abcdef'') rest" "even (length rest)"
    by (simp_all del: set_simps)
  from a obtain h where h: "unhex a = Some h" "h < 16" "hexdigit h = a" by (rule unhex_lower)
  from b obtain l where l: "unhex b = Some l" "l < 16" "hexdigit l = b" by (rule unhex_lower)
  show ?case
    using "1.IH" [OF h(1) l(1) rest] h l nibbles_byte [OF h(2) l(2)]
    by (simp add: to_hex_Cons del: set_simps)
qed (simp_all add: to_hex_Nil)

lemma std_encodePayload:
  "map std_char (encodePayload bs) = map b64_char (enc_sextets bs)"
proof -
  have "\<forall>n\<in>set (enc_sextets bs). n < 64"
    using enc_sextets_less by blast
  then show ?thesis
    unfolding encodePayload_sextets by (induction "enc_sextets bs") (auto simp: url_char_facts)
qed

lemma writeUIntBE_in_range:
  "0 \<le> ts \<Longrightarrow> ts < 2 ^ 48 \<Longrightarrow>
   writeUIntBE ts 6 = Inr (map (\<lambda>i. of_int (ts div 256 ^ (5 - i))) [0..<6])"
  by (simp add: writeUIntBE_def)

lemma packPayload_upper:
  "packPayload 1700000000000 (sample_input\<lparr> data_hash := ''A1B2C3D4'' \<rparr>) = Inr sample_payload"
  by code_simp

lemma validateInput_upper:
  "validateInput (sample_input\<lparr> data_hash := ''A1B2C3D4'' \<rparr>) = Inr ()"
  by code_simp

lemma sample_input_lower:
  "list_all (\<lambda>c. c \<in> set ''0123456789abcdef'')
     (data_hash sample_input @ metadata_series sample_input @ metadata_issued sample_input
        @ metadata_expiry sample_input)"
  by code_simp

lemma hexToBuffer_upper: "hexToBuffer ''A1B2C3D4'' = hexToBuffer ''a1b2c3d4''"
  by code_simp

text \<open>
  Claim C5. For every valid field combination (a 4-byte data hash and three 8-byte
  metadata fields, given as hex text) and every timestamp that fits in 48 bits, packing
  succeeds, and decoding the token made from the payload with any secret returns four
  fields whose bytes are the original field bytes. When the input is written in
  lowercase hex, the decoded record is the input itself.
\<close>

theorem token_round_trip:
  assumes "validateInput input = Inr ()" and "0 \<le> ts" and "ts < 2 ^ 48"
  shows "\<exists>p m. packPayload ts input = Inr p \<and>
     decodeToken (makeToken secret p) = Inr (Some m) \<and>
     hexToBuffer (data_hash m) = hexToBuffer (data_hash input) \<and>
     hexToBuffer (metadata_series m) = hexToBuffer (metadata_series input) \<and>
     hexToBuffer (metadata_issued m) = hexToBuffer (metadata_issued input) \<and>
     hexToBuffer (metadata_expiry m) = hexToBuffer (metadata_expiry input) \<and>
     length (hexToBuffer (data_hash input)) = 4 \<and>
     length (hexToBuffer (metadata_series input)) = 8 \<and>
     length (hexToBuffer (metadata_issued input)) = 8 \<and>
     length (hexToBuffer (metadata_expiry input)) = 8 \<and>
     (list_all (\<lambda>c. c \<in> set ''0123456789abcdef'')
        (data_hash input @ metadata_series input @ metadata_issued input @ metadata_expiry input)
      \<longrightarrow> m = input)"
proof -
  let ?m = "\<lparr> data_hash = to_hex (hexToBuffer (data_hash input)),
             metadata_series = to_hex (hexToBuffer (metadata_series input)),
             metadata_issued = to_hex (hexToBuffer (metadata_issued input)),
             metadata_expiry = to_hex (hexToBuffer (metadata_expiry input)) \<rparr>"
  obtain t where t: "writeUIntBE ts 6 = Inr t"
    using writeUIntBE_in_range [OF assms(2,3)] by blast
  define p where "p = t @ hexToBuffer (data_hash input) @ hexToBuffer (metadata_series input)
              @ hexToBuffer (metadata_issued input) @ hexToBuffer (metadata_expiry input)"
  have p: "packPayload ts input = Inr p"
    by (simp add: packPayload_def t p_def)
  note f = packPayload_fields [OF assms(1) p]
  have dec: "decodeToken (makeToken secret p) = Inr (Some ?m)"
    by (simp add: decodeToken_makeToken f)
  from assms(1) have v: "test_hex (data_hash input)" "length (data_hash input) = 8"
    "test_hex (metadata_series input)" "length (metadata_series input) = 16"
    "test_hex (metadata_issued input)" "length (metadata_issued input) = 16"
    "test_hex (metadata_expiry input)" "length (metadata_expiry input) = 16"
    by (simp_all add: validateInput_Inr)
  have len: "length (hexToBuffer (data_hash input)) = 4"
    "length (hexToBuffer (metadata_series input)) = 8"
    "length (hexToBuffer (metadata_issued input)) = 8"
    "length (hexToBuffer (metadata_expiry input)) = 8"
    using v by (simp_all add: length_hexToBuffer_valid)
  have low: "?m = input"
    if "list_all (\<lambda>c. c \<in> set ''0123456789abcdef'')
        (data_hash input @ metadata_series input @ metadata_issued input @ metadata_expiry input)"
  proof -
    from that v have "to_hex (hexToBuffer (data_hash input)) = data_hash input"
      "to_hex (hexToBuffer (metadata_series input)) = metadata_series input"
      "to_hex (hexToBuffer (metadata_issued input)) = metadata_issued input"
      "to_hex (hexToBuffer (metadata_expiry input)) = metadata_expiry input"
      unfolding hexToBuffer_def by (simp_all add: to_hex_hex_decode del: set_simps)
    then show ?thesis by simp
  qed
  show ?thesis
    using p dec len low by (intro exI [of _ p] exI [of _ ?m]) (simp add: hexToBuffer_to_hex)
qed

theorem token_round_trip_witness:
  "validateInput sample_input = Inr () \<and> (0 :: int) \<le> 1700000000000 \<and>
   (1700000000000 :: int) < 2 ^ 48 \<and>
   packPayload 1700000000000 sample_input = Inr sample_payload \<and>
   decodeToken (makeToken ''secret'' sample_payload) = Inr (Some sample_input) \<and>
   validateInput (sample_input\<lparr> data_hash := ''A1B2C3D4'' \<rparr>) = Inr () \<and>
   packPayload 1700000000000 (sample_input\<lparr> data_hash := ''A1B2C3D4'' \<rparr>) = Inr sample_payload \<and>
   hexToBuffer (data_hash sample_input) = hexToBuffer ''A1B2C3D4''"
proof -
  have r: "(0 :: int) \<le> 1700000000000" "(1700000000000 :: int) < 2 ^ 48" by simp_all
  from token_round_trip [OF validateInput_sample r, of "''secret''"]
  obtain p m where p: "packPayload 1700000000000 sample_input = Inr p"
    and d: "decodeToken (makeToken ''secret'' p) = Inr (Some m)"
    and l: "list_all (\<lambda>c. c \<in> set ''0123456789abcdef'')
        (data_hash sample_input @ metadata_series sample_input @ metadata_issued sample_input
          @ metadata_expiry sample_input) \<longrightarrow> m = sample_input"
    by blast
  from p have "p = sample_payload" by (simp add: packPayload_sample)
  moreover from l have "m = sample_input" using sample_input_lower by blast
  ultimately have 1: "decodeToken (makeToken ''secret'' sample_payload) = Inr (Some sample_input)"
    using d by simp
  have 2: "hexToBuffer (data_hash sample_input) = hexToBuffer ''A1B2C3D4''"
    by (simp add: sample_input_def hexToBuffer_upper)
  show ?thesis
    using r 1 2 by (simp add: validateInput_sample packPayload_sample validateInput_upper packPayload_upper)
qed

subsection \<open>The shape of a token\<close>

lemma base64_encode_34:
  "length p = 34 \<Longrightarrow> base64_encode p = map std_char (encodePayload p) @ ''==''"
  by (simp add: base64_encode_def std_encodePayload numeral_2_eq_2)

text \<open>
  Claim C7. Every token that \<open>generate\<close> returns is
  \<open>payload-b64url.sig-hex\<close>: the payload has 34 bytes; the payload segment is its
  Base64 text with \<open>+\<close> and \<open>/\<close> replaced and the two padding characters
  removed, 46 characters of the URL-safe alphabet; the signature segment is the hex
  text of the first 16 bytes of the 32-byte HMAC-SHA-256 digest of the payload under
  the configured secret, 32 lowercase hex characters. The token has 79 characters,
  whatever the field values.
\<close>

theorem token_shape:
  assumes "generate cfg ev st input = (Inr out, st')"
  shows "\<exists>p. packPayload (date_now ev) input = Inr p \<and> length p = 34 \<and>
     token out = encodePayload p @ ''.'' @ signPayload (hmacSecret cfg) p \<and>
     base64_encode p = map std_char (encodePayload p) @ ''=='' \<and>
     length (encodePayload p) = 46 \<and>
     CHR ''='' \<notin> set (encodePayload p) \<and>
     set (encodePayload p)
       \<subseteq> set ''ABCDEFGHIJKLMNOPQRSTUVWXYZabcdefghijklmnopqrstuvwxyz0123456789-_'' \<and>
     signPayload (hmacSecret cfg) p
       = to_hex (take 16 (hmac_sha256 (bytes_of (hmacSecret cfg)) p)) \<and>
     length (hmac_sha256 (bytes_of (hmacSecret cfg)) p) = 32 \<and>
     length (signPayload (hmacSecret cfg) p) = 32 \<and>
     set (signPayload (hmacSecret cfg) p) \<subseteq> set ''0123456789abcdef'' \<and>
     length (token out) = 79"
proof -
  from generate_Inr [OF assms] obtain p where v: "validateInput input = Inr ()"
    and p: "packPayload (date_now ev) input = Inr p"
    and tok: "token out = makeToken (hmacSecret cfg) p"
    by auto
  have len: "length p = 34" by (rule packPayload_fields(1) [OF v p])
  have tok': "token out = encodePayload p @ ''.'' @ signPayload (hmacSecret cfg) p"
    by (simp add: tok makeToken_def)
  have b64: "base64_encode p = map std_char (encodePayload p) @ ''==''"
    by (rule base64_encode_34 [OF len])
  have enc: "length (encodePayload p) = 46" by (simp add: length_encodePayload len)
  have nopad: "CHR ''='' \<notin> set (encodePayload p)" by (rule encodePayload_no_pad)
  have chars: "set (encodePayload p)
       \<subseteq> set ''ABCDEFGHIJKLMNOPQRSTUVWXYZabcdefghijklmnopqrstuvwxyz0123456789-_''"
    using encodePayload_chars [of _ p] by blast
  have dig: "signPayload (hmacSecret cfg) p
       = to_hex (take 16 (hmac_sha256 (bytes_of (hmacSecret cfg)) p))"
    by (rule signPayload_digest)
  have hl: "length (hmac_sha256 (bytes_of (hmacSecret cfg)) p) = 32"
    by (rule length_hmac_sha256)
  have sl: "length (signPayload (hmacSecret cfg) p) = 32"
    by (rule length_signPayload)
  have sc: "set (signPayload (hmacSecret cfg) p) \<subseteq> set ''0123456789abcdef''"
    by (rule signPayload_chars)
  have total: "length (token out) = 79"
    by (simp add: tok' enc sl)
  show ?thesis
    by (intro exI [of _ p] conjI) (fact p len tok' b64 enc nopad chars dig hl sl sc total)+
qed

theorem token_shape_witness:
  "generate sample_config (sample_env (Inr (Some (sample_response None))) None)
      empty_store sample_input
   = (Inr \<lparr> token = makeToken ''secret'' sample_payload, qr_image_base64 = Some ''iVBORw0'' \<rparr>,
      empty_store\<lparr> qr_audit :=
        [\<lparr> audit_token = makeToken ''secret'' sample_payload,
           audit_data_hash = ''a1b2c3d4'',
           audit_metadata_series = ''1234567890abcdef'',
           audit_metadata_issued = ''0011223344556677'',
           audit_metadata_expiry = ''8899aabbccddeeff'',
           audit_created_at = 1700000000005 \<rparr>] \<rparr>) \<and>
   makeToken ''secret'' sample_payload
     = ''AYvP5WgAobLD1BI0VniQq83vABEiM0RVZneImaq7zN3u_w'' @ ''.'' @ signPayload ''secret'' sample_payload \<and>
   length (signPayload ''secret'' sample_payload) = 32 \<and>
   length (makeToken ''secret'' sample_payload) = 79"
proof -
  let ?out = "\<lparr> token = makeToken ''secret'' sample_payload, qr_image_base64 = Some ''iVBORw0'' \<rparr>"
  from token_shape [OF generate_sample]
  obtain p where "packPayload (date_now (sample_env (Inr (Some (sample_response None))) None)) sample_input = Inr p"
    and "length (signPayload (hmacSecret sample_config) p) = 32"
    and "length (token ?out) = 79"
    by blast
  then have "length (signPayload ''secret'' sample_payload) = 32"
    and "length (makeToken ''secret'' sample_payload) = 79"
    by (simp_all add: packPayload_sample_env sample_config_def)
  moreover have "encodePayload sample_payload = ''AYvP5WgAobLD1BI0VniQq83vABEiM0RVZneImaq7zN3u_w''"
    by code_simp
  ultimately show ?thesis
    by (simp add: generate_sample makeToken_def)
qed

subsection \<open>The timestamp\<close>

lemma readUIntBE_fold:
  "foldl (\<lambda>acc b. acc * 256 + uint (b :: byte)) a
     (map (\<lambda>i. of_int (v div 256 ^ (n - 1 - i))) [0..<n])
   = a * 256 ^ n + v mod 256 ^ n"
proof (induction n arbitrary: a)
  case 0
  show ?case by simp
next
  case (Suc n)
  have l: "[0..<Suc n] = 0 # map Suc [0..<n]"
    by (simp add: upt_conv_Cons map_Suc_upt del: upt_Suc)
  have m: "map (\<lambda>i. of_int (v div 256 ^ (Suc n - 1 - i)) :: byte) (map Suc [0..<n])
      = map (\<lambda>i. of_int (v div 256 ^ (n - 1 - i))) [0..<n]"
    by simp
  have u: "uint (of_int (v div 256 ^ n) :: byte) = v div 256 ^ n mod 256"
    by (simp add: uint_word_of_int)
  have s: "v mod (256 ^ n * 256) = 256 ^ n * (v div 256 ^ n mod 256) + v mod 256 ^ n"
    using mod_mult2_eq' [of v "256 ^ n" 256] by simp
  have "foldl (\<lambda>acc b. acc * 256 + uint (b :: byte)) a
     (map (\<lambda>i. of_int (v div 256 ^ (Suc n - 1 - i))) [0..<Suc n])
     = foldl (\<lambda>acc b. acc * 256 + uint (b :: byte)) (a * 256 + v div 256 ^ n mod 256)
         (map (\<lambda>i. of_int (v div 256 ^ (n - 1 - i))) [0..<n])"
    unfolding l by (simp add: u o_def)
  also have "\<dots> = (a * 256 + v div 256 ^ n mod 256) * 256 ^ n + v mod 256 ^ n"
    by (rule Suc.IH)
  also have "\<dots> = a * 256 ^ Suc n + v mod 256 ^ Suc n"
    using s by (simp add: algebra_simps)
  finally show ?case .
qed

lemma readUIntBE_writeUIntBE:
  "writeUIntBE v n = Inr b \<Longrightarrow> readUIntBE b = v"
proof -
  assume "writeUIntBE v n = Inr b"
  then have r: "0 \<le> v" "v < 2 ^ (8 * n)"
    and b: "b = map (\<lambda>i. of_int (v div 256 ^ (n - 1 - i))) [0..<n]"
    by (simp_all add: writeUIntBE_Inr)
  have "(256 :: int) ^ n = 2 ^ (8 * n)"
    by (simp add: power_mult)
  with r have "v mod 256 ^ n = v" by simp
  then show ?thesis
    unfolding b readUIntBE_def readUIntBE_fold by simp
qed

lemma writeUIntBE_sample: "writeUIntBE 1700000000000 6 = Inr [1, 139, 207, 229, 104, 0]"
  by code_simp

lemma writeUIntBE_max: "writeUIntBE 281474976710655 6 = Inr [255, 255, 255, 255, 255, 255]"
  by code_simp

text \<open>
  Claim C9. A clock reading that does not fit in 48 bits (negative, or \<open>2^48\<close> and
  above) makes \<open>writeUIntBE\<close> throw: packing fails, and \<open>generate\<close> fails with
  that error for a valid input, leaving the store as it was. A reading that fits is
  written as six bytes whose big-endian value is the reading, and packing succeeds.
\<close>

theorem timestamp_range_checked:
  "(ts < 0 \<or> 2 ^ 48 \<le> ts \<longrightarrow>
      writeUIntBE ts 6 = Inl RangeError \<and> packPayload ts input = Inl RangeError \<and>
      (validateInput input = Inr () \<and> date_now ev = ts \<longrightarrow>
         generate cfg ev st input = (Inl RangeError, st))) \<and>
   (0 \<le> ts \<and> ts < 2 ^ 48 \<longrightarrow>
      (\<exists>b. writeUIntBE ts 6 = Inr b \<and> length b = 6 \<and> readUIntBE b = ts \<and>
         packPayload ts input =
           Inr (b @ hexToBuffer (data_hash input) @ hexToBuffer (metadata_series input)
                  @ hexToBuffer (metadata_issued input) @ hexToBuffer (metadata_expiry input))))"
proof (intro conjI impI)
  assume out: "ts < 0 \<or> 2 ^ 48 \<le> ts"
  then show w: "writeUIntBE ts 6 = Inl RangeError"
    by (auto simp: writeUIntBE_def)
  then show p: "packPayload ts input = Inl RangeError"
    by (simp add: packPayload_def)
  assume "validateInput input = Inr () \<and> date_now ev = ts"
  with p show "generate cfg ev st input = (Inl RangeError, st)"
    by (simp add: generate_def)
next
  assume "0 \<le> ts \<and> ts < 2 ^ 48"
  then obtain b where b: "writeUIntBE ts 6 = Inr b"
    using writeUIntBE_in_range by blast
  show "\<exists>b. writeUIntBE ts 6 = Inr b \<and> length b = 6 \<and> readUIntBE b = ts \<and>
         packPayload ts input =
           Inr (b @ hexToBuffer (data_hash input) @ hexToBuffer (metadata_series input)
                  @ hexToBuffer (metadata_issued input) @ hexToBuffer (metadata_expiry input))"
    using b length_writeUIntBE [OF b] readUIntBE_writeUIntBE [OF b]
    by (intro exI [of _ b]) (simp add: packPayload_def)
qed

theorem timestamp_range_checked_witness:
  "(281474976710656 :: int) = 2 ^ 48 \<and>
   writeUIntBE 281474976710656 6 = Inl RangeError \<and>
   writeUIntBE (- 1) 6 = Inl RangeError \<and>
   generate sample_config
      ((sample_env (Inr (Some (sample_response None))) None)\<lparr> date_now := 281474976710656 \<rparr>)
      empty_store sample_input
     = (Inl RangeError, empty_store) \<and>
   writeUIntBE 281474976710655 6 = Inr [255, 255, 255, 255, 255, 255] \<and>
   writeUIntBE 1700000000000 6 = Inr [1, 139, 207, 229, 104, 0] \<and>
   readUIntBE [1, 139, 207, 229, 104, 0] = 1700000000000"
proof -
  let ?ev = "(sample_env (Inr (Some (sample_response None))) None)\<lparr> date_now := 281474976710656 \<rparr>"
  note hi = timestamp_range_checked [where ts = 281474976710656 and input = sample_input
      and ev = ?ev and cfg = sample_config and st = empty_store]
  note lo = timestamp_range_checked [where ts = "- 1" and input = sample_input
      and ev = ?ev and cfg = sample_config and st = empty_store]
  note ok = timestamp_range_checked [where ts = 1700000000000 and input = sample_input
      and ev = ?ev and cfg = sample_config and st = empty_store]
  have n: "(281474976710656 :: int) = 2 ^ 48" by simp
  have 1: "writeUIntBE 281474976710656 6 = Inl RangeError"
    and 2: "generate sample_config ?ev empty_store sample_input = (Inl RangeError, empty_store)"
    using hi by (simp_all add: validateInput_sample)
  have 3: "writeUIntBE (- 1) 6 = Inl RangeError"
    using lo by simp
  from ok obtain b where "writeUIntBE 1700000000000 6 = Inr b" and "readUIntBE b = 1700000000000"
    by auto
  then have 4: "readUIntBE [1, 139, 207, 229, 104, 0] = 1700000000000"
    by (simp add: writeUIntBE_sample)
  from n 1 2 3 4 writeUIntBE_max writeUIntBE_sample show ?thesis by blast
qed

subsection \<open>Configuration\<close>

lemma required_missing:
  "penv key = None \<or> penv key = Some [] \<Longrightarrow>
   required penv key None = Inl (StartupError (''Missing required env: '' @ key))"
  by (auto simp: required_def)

lemma required_error:
  "required penv key fallback = Inl e \<Longrightarrow> e = StartupError (''Missing required env: '' @ key)"
  by (auto simp: required_def Let_def split: option.splits if_splits)

lemma required_value:
  "required penv key None = Inr v \<Longrightarrow> penv key = Some v \<and> v \<noteq> []"
  by (auto simp: required_def Let_def split: option.splits if_splits)

lemma required_other:
  "k \<noteq> key \<Longrightarrow> required (penv(k := v)) key fallback = required penv key fallback"
  by (simp add: required_def)

lemma loadConfig_Inl:
  "loadConfig penv = Inl e \<longleftrightarrow>
     required penv ''MONGO_URI'' None = Inl e \<or>
     (\<exists>a. required penv ''MONGO_URI'' None = Inr a) \<and>
       (required penv ''MONGO_DB'' (Some ''protected_qr'') = Inl e \<or>
        (\<exists>b. required penv ''MONGO_DB'' (Some ''protected_qr'') = Inr b) \<and>
          (required penv ''PYTHON_SERVICE_URL'' None = Inl e \<or>
           (\<exists>c. required penv ''PYTHON_SERVICE_URL'' None = Inr c) \<and>
             required penv ''HMAC_SECRET'' None = Inl e))"
proof (cases "required penv ''MONGO_URI'' None")
  case (Inl x)
  then show ?thesis by (simp add: loadConfig_def)
next
  case a: (Inr a)
  show ?thesis
  proof (cases "required penv ''MONGO_DB'' (Some ''protected_qr'')")
    case (Inl x)
    with a show ?thesis by (simp add: loadConfig_def)
  next
    case b: (Inr b)
    show ?thesis
    proof (cases "required penv ''PYTHON_SERVICE_URL'' None")
      case (Inl x)
      with a b show ?thesis by (simp add: loadConfig_def)
    next
      case c: (Inr c)
      show ?thesis
      proof (cases "required penv ''HMAC_SECRET'' None")
        case (Inl x)
        with a b c show ?thesis by (simp add: loadConfig_def)
      next
        case (Inr d)
        with a b c show ?thesis by (simp add: loadConfig_def)
      qed
    qed
  qed
qed

lemma loadConfig_Inr:
  assumes "loadConfig penv = Inr cfg"
  shows "required penv ''MONGO_URI'' None = Inr (mongoUri cfg)"
    and "required penv ''PYTHON_SERVICE_URL'' None = Inr (pythonServiceUrl cfg)"
    and "required penv ''HMAC_SECRET'' None = Inr (hmacSecret cfg)"
    and "requestTimeoutMs cfg =
        (case penv ''REQUEST_TIMEOUT_MS'' of None \<Rightarrow> NumLit 10000 | Some s \<Rightarrow> NumberOf s)"
    and "logLevel cfg = (case penv ''LOG_LEVEL'' of None \<Rightarrow> ''info'' | Some l \<Rightarrow> l)"
proof -
  obtain a where a: "required penv ''MONGO_URI'' None = Inr a"
    using assms by (cases "required penv ''MONGO_URI'' None") (simp_all add: loadConfig_def)
  obtain b where b: "required penv ''MONGO_DB'' (Some ''protected_qr'') = Inr b"
    using assms a
    by (cases "required penv ''MONGO_DB'' (Some ''protected_qr'')") (simp_all add: loadConfig_def)
  obtain c where c: "required penv ''PYTHON_SERVICE_URL'' None = Inr c"
    using assms a b
    by (cases "required penv ''PYTHON_SERVICE_URL'' None") (simp_all add: loadConfig_def)
  obtain d where d: "required penv ''HMAC_SECRET'' None = Inr d"
    using assms a b c
    by (cases "required penv ''HMAC_SECRET'' None") (simp_all add: loadConfig_def)
  from assms have cfg: "cfg = \<lparr> port = (case penv ''PORT'' of None \<Rightarrow> NumLit 8080 | Some s \<Rightarrow> NumberOf s),
      mongoUri = a, mongoDb = b, pythonServiceUrl = c, hmacSecret = d,
      logLevel = (case penv ''LOG_LEVEL'' of None \<Rightarrow> ''info'' | Some l \<Rightarrow> l),
      requestTimeoutMs =
        (case penv ''REQUEST_TIMEOUT_MS'' of None \<Rightarrow> NumLit 10000 | Some s \<Rightarrow> NumberOf s) \<rparr>"
    by (simp add: loadConfig_def a b c d)
  show "required penv ''MONGO_URI'' None = Inr (mongoUri cfg)" by (simp add: cfg a)
  show "required penv ''PYTHON_SERVICE_URL'' None = Inr (pythonServiceUrl cfg)" by (simp add: cfg c)
  show "required penv ''HMAC_SECRET'' None = Inr (hmacSecret cfg)" by (simp add: cfg d)
  show "requestTimeoutMs cfg =
        (case penv ''REQUEST_TIMEOUT_MS'' of None \<Rightarrow> NumLit 10000 | Some s \<Rightarrow> NumberOf s)"
    by (simp add: cfg)
  show "logLevel cfg = (case penv ''LOG_LEVEL'' of None \<Rightarrow> ''info'' | Some l \<Rightarrow> l)"
    by (simp add: cfg)
qed

lemma loadConfig_sample:
  "loadConfig sample_penv =
     Inr \<lparr> port = NumberOf ''8080'', mongoUri = ''mongodb://localhost:27017'',
           mongoDb = ''protected_qr'', pythonServiceUrl = ''http://localhost:8000'',
           hmacSecret = ''secret'', logLevel = ''info'', requestTimeoutMs = NumLit 10000 \<rparr>"
  by (simp add: loadConfig_def required_def sample_penv_def)

text \<open>
  Claim C6, as stated, fails: the external-call timeout is not mandatory. With
  \<open>REQUEST_TIMEOUT_MS\<close> unset the configuration loads, and the timeout is 10000.
\<close>

theorem timeout_optional_counterexample:
  "sample_penv ''REQUEST_TIMEOUT_MS'' = None \<and>
   loadConfig sample_penv =
     Inr \<lparr> port = NumberOf ''8080'', mongoUri = ''mongodb://localhost:27017'',
           mongoDb = ''protected_qr'', pythonServiceUrl = ''http://localhost:8000'',
           hmacSecret = ''secret'', logLevel = ''info'', requestTimeoutMs = NumLit 10000 \<rparr>"
  by (simp add: loadConfig_sample) (simp add: sample_penv_def)

text \<open>
  Claim C6, amended. The store connection string, the pattern-service base URL and the
  signing secret are mandatory: when one of \<open>MONGO_URI\<close>, \<open>PYTHON_SERVICE_URL\<close>,
  \<open>HMAC_SECRET\<close> is unset or empty, loading the configuration throws
  "Missing required env: ..." and the module is not imported. The external-call
  timeout and the log verbosity are optional: whether they are set never decides
  whether the configuration loads, and they default to 10000 and \<open>info\<close>.
\<close>

theorem mandatory_options:
  "(k \<in> {''MONGO_URI'', ''PYTHON_SERVICE_URL'', ''HMAC_SECRET''} \<and>
      (penv k = None \<or> penv k = Some []) \<longrightarrow>
      (\<exists>k'. loadConfig penv = Inl (StartupError (''Missing required env: '' @ k')))) \<and>
   (loadConfig (penv(''REQUEST_TIMEOUT_MS'' := v)) = Inl e \<longleftrightarrow> loadConfig penv = Inl e) \<and>
   (loadConfig (penv(''LOG_LEVEL'' := v)) = Inl e \<longleftrightarrow> loadConfig penv = Inl e) \<and>
   (loadConfig penv = Inr cfg \<longrightarrow>
      penv ''MONGO_URI'' = Some (mongoUri cfg) \<and> mongoUri cfg \<noteq> [] \<and>
      penv ''PYTHON_SERVICE_URL'' = Some (pythonServiceUrl cfg) \<and> pythonServiceUrl cfg \<noteq> [] \<and>
      penv ''HMAC_SECRET'' = Some (hmacSecret cfg) \<and> hmacSecret cfg \<noteq> [] \<and>
      requestTimeoutMs cfg =
        (case penv ''REQUEST_TIMEOUT_MS'' of None \<Rightarrow> NumLit 10000 | Some s \<Rightarrow> NumberOf s) \<and>
      logLevel cfg = (case penv ''LOG_LEVEL'' of None \<Rightarrow> ''info'' | Some l \<Rightarrow> l))"
proof -
  have missing: "k \<in> {''MONGO_URI'', ''PYTHON_SERVICE_URL'', ''HMAC_SECRET''} \<and>
      (penv k = None \<or> penv k = Some []) \<longrightarrow>
      (\<exists>k'. loadConfig penv = Inl (StartupError (''Missing required env: '' @ k')))"
  proof
    assume k: "k \<in> {''MONGO_URI'', ''PYTHON_SERVICE_URL'', ''HMAC_SECRET''} \<and>
      (penv k = None \<or> penv k = Some [])"
    then have miss: "required penv k None = Inl (StartupError (''Missing required env: '' @ k))"
      by (intro required_missing) blast
    show "\<exists>k'. loadConfig penv = Inl (StartupError (''Missing required env: '' @ k'))"
    proof (cases "loadConfig penv")
      case (Inl e)
      then have "\<exists>key fb. required penv key fb = Inl e"
        unfolding loadConfig_Inl by blast
      then obtain key where "e = StartupError (''Missing required env: '' @ key)"
        using required_error by blast
      with Inl show ?thesis by blast
    next
      case (Inr cfg)
      from loadConfig_Inr(1-3) [OF Inr] k miss show ?thesis
        by auto
    qed
  qed
  have ne: "''REQUEST_TIMEOUT_MS'' \<noteq> ''MONGO_URI''" "''REQUEST_TIMEOUT_MS'' \<noteq> ''MONGO_DB''"
    "''REQUEST_TIMEOUT_MS'' \<noteq> ''PYTHON_SERVICE_URL''" "''REQUEST_TIMEOUT_MS'' \<noteq> ''HMAC_SECRET''"
    by simp_all
  have timeout: "loadConfig (penv(''REQUEST_TIMEOUT_MS'' := v)) = Inl e \<longleftrightarrow> loadConfig penv = Inl e"
    unfolding loadConfig_Inl
    by (simp only: required_other [OF ne(1)] required_other [OF ne(2)]
        required_other [OF ne(3)] required_other [OF ne(4)])
  have ne': "''LOG_LEVEL'' \<noteq> ''MONGO_URI''" "''LOG_LEVEL'' \<noteq> ''MONGO_DB''"
    "''LOG_LEVEL'' \<noteq> ''PYTHON_SERVICE_URL''" "''LOG_LEVEL'' \<noteq> ''HMAC_SECRET''"
    by simp_all
  have level: "loadConfig (penv(''LOG_LEVEL'' := v)) = Inl e \<longleftrightarrow> loadConfig penv = Inl e"
    unfolding loadConfig_Inl
    by (simp only: required_other [OF ne'(1)] required_other [OF ne'(2)]
        required_other [OF ne'(3)] required_other [OF ne'(4)])
  have loaded: "loadConfig penv = Inr cfg \<longrightarrow>
      penv ''MONGO_URI'' = Some (mongoUri cfg) \<and> mongoUri cfg \<noteq> [] \<and>
      penv ''PYTHON_SERVICE_URL'' = Some (pythonServiceUrl cfg) \<and> pythonServiceUrl cfg \<noteq> [] \<and>
      penv ''HMAC_SECRET'' = Some (hmacSecret cfg) \<and> hmacSecret cfg \<noteq> [] \<and>
      requestTimeoutMs cfg =
        (case penv ''REQUEST_TIMEOUT_MS'' of None \<Rightarrow> NumLit 10000 | Some s \<Rightarrow> NumberOf s) \<and>
      logLevel cfg = (case penv ''LOG_LEVEL'' of None \<Rightarrow> ''info'' | Some l \<Rightarrow> l)"
  proof
    assume ok: "loadConfig penv = Inr cfg"
    note r = loadConfig_Inr [OF ok]
    show "penv ''MONGO_URI'' = Some (mongoUri cfg) \<and> mongoUri cfg \<noteq> [] \<and>
      penv ''PYTHON_SERVICE_URL'' = Some (pythonServiceUrl cfg) \<and> pythonServiceUrl cfg \<noteq> [] \<and>
      penv ''HMAC_SECRET'' = Some (hmacSecret cfg) \<and> hmacSecret cfg \<noteq> [] \<and>
      requestTimeoutMs cfg =
        (case penv ''REQUEST_TIMEOUT_MS'' of None \<Rightarrow> NumLit 10000 | Some s \<Rightarrow> NumberOf s) \<and>
      logLevel cfg = (case penv ''LOG_LEVEL'' of None \<Rightarrow> ''info'' | Some l \<Rightarrow> l)"
      using required_value [OF r(1)] required_value [OF r(2)] required_value [OF r(3)] r(4) r(5)
      by blast
  qed
  from missing timeout level loaded show ?thesis
    by (intro conjI)
qed

theorem mandatory_options_witness:
  "loadConfig (sample_penv(''HMAC_SECRET'' := None))
     = Inl (StartupError ''Missing required env: HMAC_SECRET'') \<and>
   loadConfig (sample_penv(''MONGO_URI'' \<mapsto> []))
     = Inl (StartupError ''Missing required env: MONGO_URI'') \<and>
   loadConfig (sample_penv(''REQUEST_TIMEOUT_MS'' \<mapsto> ''2500''))
     = Inr \<lparr> port = NumberOf ''8080'', mongoUri = ''mongodb://localhost:27017'',
           mongoDb = ''protected_qr'', pythonServiceUrl = ''http://localhost:8000'',
           hmacSecret = ''secret'', logLevel = ''info'', requestTimeoutMs = NumberOf ''2500'' \<rparr> \<and>
   loadConfig sample_penv =
     Inr \<lparr> port = NumberOf ''8080'', mongoUri = ''mongodb://localhost:27017'',
           mongoDb = ''protected_qr'', pythonServiceUrl = ''http://localhost:8000'',
           hmacSecret = ''secret'', logLevel = ''info'', requestTimeoutMs = NumLit 10000 \<rparr>"
proof -
  have a: "''HMAC_SECRET'' \<in> {''MONGO_URI'', ''PYTHON_SERVICE_URL'', ''HMAC_SECRET''} \<and>
      ((sample_penv(''HMAC_SECRET'' := None)) ''HMAC_SECRET'' = None \<or>
       (sample_penv(''HMAC_SECRET'' := None)) ''HMAC_SECRET'' = Some [])"
    by simp
  from mandatory_options [where k = "''HMAC_SECRET''" and penv = "sample_penv(''HMAC_SECRET'' := None)"] a
  obtain k' where "loadConfig (sample_penv(''HMAC_SECRET'' := None))
      = Inl (StartupError (''Missing required env: '' @ k'))"
    by blast
  moreover have "loadConfig (sample_penv(''HMAC_SECRET'' := None))
     = Inl (StartupError ''Missing required env: HMAC_SECRET'')"
    by (simp add: loadConfig_def required_def sample_penv_def)
  moreover have "loadConfig (sample_penv(''MONGO_URI'' \<mapsto> []))
     = Inl (StartupError ''Missing required env: MONGO_URI'')"
    by (simp add: loadConfig_def required_def sample_penv_def)
  moreover have "loadConfig (sample_penv(''REQUEST_TIMEOUT_MS'' \<mapsto> ''2500''))
     = Inr \<lparr> port = NumberOf ''8080'', mongoUri = ''mongodb://localhost:27017'',
           mongoDb = ''protected_qr'', pythonServiceUrl = ''http://localhost:8000'',
           hmacSecret = ''secret'', logLevel = ''info'', requestTimeoutMs = NumberOf ''2500'' \<rparr>"
    by (simp add: loadConfig_def required_def sample_penv_def)
  ultimately show ?thesis
    using loadConfig_sample by simp
qed

end
